theory Spec2Isabelle
  imports Main
begin

section \<open>Entity model (app/schemas)\<close>

text \<open>
  The pydantic models of \<^verbatim>\<open>app/schemas\<close> become records and the string enums become
  datatypes. Record fields carry the entity's name as a prefix, since several models
  share field names: \<^verbatim>\<open>Teapot.id\<close> is \<open>teapot_id\<close>, \<^verbatim>\<open>Brew.teapot_id\<close> is
  \<open>brew_teapot_id\<close>, \<^verbatim>\<open>Steep.brew_id\<close> is \<open>steep_brew_id\<close>, and so on.
  A \<^verbatim>\<open>datetime\<close> is an integer count of microseconds; only its order is used.
  A Python \<^verbatim>\<open>int\<close> is an \<open>int\<close>, \<^verbatim>\<open>X | None\<close> is \<open>X option\<close>.
\<close>

type_synonym datetime = int

datatype TeapotMaterial = CERAMIC | CAST_IRON | GLASS | PORCELAIN | CLAY | STAINLESS_STEEL

datatype TeapotStyle = KYUSU | GAIWAN | ENGLISH | MOROCCAN | TURKISH | YIXING

datatype TeaType = GREEN | BLACK | OOLONG | WHITE | PUERH | HERBAL | ROOIBOS

datatype CaffeineLevel = NONE | LOW | MEDIUM | HIGH

datatype BrewStatus = PREPARING | STEEPING | READY | SERVED | COLD

record Teapot =
  teapot_id :: string
  teapot_name :: string
  teapot_material :: TeapotMaterial
  teapot_capacity_ml :: int
  teapot_style :: TeapotStyle
  teapot_description :: "string option"
  teapot_created_at :: datetime
  teapot_updated_at :: datetime

record Tea =
  tea_id :: string
  tea_name :: string
  tea_type :: TeaType
  tea_origin :: "string option"
  tea_caffeine_level :: CaffeineLevel
  tea_steep_temp_celsius :: int
  tea_steep_time_seconds :: int
  tea_description :: "string option"
  tea_created_at :: datetime
  tea_updated_at :: datetime

record Brew =
  brew_id :: string
  brew_teapot_id :: string
  brew_tea_id :: string
  brew_status :: BrewStatus
  brew_water_temp_celsius :: int
  brew_notes :: "string option"
  brew_started_at :: datetime
  brew_completed_at :: "datetime option"
  brew_created_at :: datetime
  brew_updated_at :: datetime

record Steep =
  steep_id :: string
  steep_brew_id :: string
  steep_number :: int
  steep_duration_seconds :: int
  steep_rating :: "int option"
  steep_notes :: "string option"
  steep_created_at :: datetime

text \<open>Query models: \<^verbatim>\<open>PaginationQuery\<close>, \<^verbatim>\<open>TeapotQuery\<close>, \<^verbatim>\<open>TeaQuery\<close>, \<^verbatim>\<open>BrewQuery\<close>.\<close>

record PaginationQuery =
  pagq_page :: int
  pagq_limit :: int

record TeapotQuery =
  teapotq_page :: int
  teapotq_limit :: int
  teapotq_material :: "TeapotMaterial option"
  teapotq_style :: "TeapotStyle option"

record TeaQuery =
  teaq_page :: int
  teaq_limit :: int
  teaq_type :: "TeaType option"
  teaq_caffeine_level :: "CaffeineLevel option"

record BrewQuery =
  brewq_page :: int
  brewq_limit :: int
  brewq_status :: "BrewStatus option"
  brewq_teapot_id :: "string option"
  brewq_tea_id :: "string option"


section \<open>Python dictionaries and slices\<close>

text \<open>
  A Python \<^verbatim>\<open>dict\<close> keeps its keys in insertion order, and the list operations of the
  store depend on that order, so a dictionary is an association list. \<^verbatim>\<open>d[k] = v\<close>
  replaces the value in place when the key is present and appends the pair otherwise.
\<close>

type_synonym 'v dict = "(string \<times> 'v) list"

fun dict_get :: "'v dict \<Rightarrow> string \<Rightarrow> 'v option" where
  "dict_get [] k = None"
| "dict_get ((k', v) # d) k = (if k' = k then Some v else dict_get d k)"

definition dict_contains :: "'v dict \<Rightarrow> string \<Rightarrow> bool" where
  "dict_contains d k = (dict_get d k \<noteq> None)"

fun dict_set :: "'v dict \<Rightarrow> string \<Rightarrow> 'v \<Rightarrow> 'v dict" where
  "dict_set [] k v = [(k, v)]"
| "dict_set ((k', v') # d) k v =
     (if k' = k then (k, v) # d else (k', v') # dict_set d k v)"

text \<open>\<^verbatim>\<open>del d[k]\<close>; the store only executes it after the test \<^verbatim>\<open>k in d\<close>.\<close>

definition dict_del :: "'v dict \<Rightarrow> string \<Rightarrow> 'v dict" where
  "dict_del d k = filter (\<lambda>(k', v). k' \<noteq> k) d"

definition dict_values :: "'v dict \<Rightarrow> 'v list" where
  "dict_values d = map snd d"

text \<open>
  \<^verbatim>\<open>xs[start:end]\<close>: a negative bound counts from the end of the list, and both bounds
  are clamped to the list, so a slice never raises.
\<close>

definition py_slice :: "'a list \<Rightarrow> int \<Rightarrow> int \<Rightarrow> 'a list" where
  "py_slice xs start end =
     (let n = int (length xs);
          lo = (if start < 0 then max 0 (start + n) else min start n);
          hi = (if end < 0 then max 0 (end + n) else min end n)
      in take (nat (hi - lo)) (drop (nat lo) xs))"


section \<open>The store (app/store/memory.py)\<close>

text \<open>
  \<^verbatim>\<open>MemoryStore\<close> holds four dictionaries. Every method body runs inside
  \<^verbatim>\<open>with self._lock\<close>, so a method call is one atomic step on the store: a method that
  assigns to the store returns the new store, a method that only reads is a function of
  the store.
\<close>

record MemoryStore =
  teapots :: "Teapot dict"
  teas :: "Tea dict"
  brews :: "Brew dict"
  steeps :: "Steep dict"

definition paginate :: "'a list \<Rightarrow> int \<Rightarrow> int \<Rightarrow> 'a list \<times> int" where
  "paginate items page limit =
     (let total = int (length items);
          start = (page - 1) * limit;
          end = start + limit
      in (py_slice items start end, total))"

subsection \<open>Teapots\<close>

definition create_teapot :: "MemoryStore \<Rightarrow> Teapot \<Rightarrow> MemoryStore" where
  "create_teapot s teapot = s\<lparr>teapots := dict_set (teapots s) (teapot_id teapot) teapot\<rparr>"

definition get_teapot :: "MemoryStore \<Rightarrow> string \<Rightarrow> Teapot option" where
  "get_teapot s i = dict_get (teapots s) i"

definition update_teapot :: "MemoryStore \<Rightarrow> Teapot \<Rightarrow> MemoryStore" where
  "update_teapot s teapot = s\<lparr>teapots := dict_set (teapots s) (teapot_id teapot) teapot\<rparr>"

definition delete_teapot :: "MemoryStore \<Rightarrow> string \<Rightarrow> bool \<times> MemoryStore" where
  "delete_teapot s i =
     (if \<not> dict_contains (teapots s) i then (False, s)
      else (True, s\<lparr>teapots := dict_del (teapots s) i\<rparr>))"

text \<open>
  The filters test the query field for truthiness (\<^verbatim>\<open>if query.material:\<close>). Every member
  of the string enums has a non-empty value, so an enum field is truthy exactly when it is
  not \<^verbatim>\<open>None\<close>; a string field is truthy when it is neither \<^verbatim>\<open>None\<close> nor empty.
\<close>

definition truthy_enum :: "'a option \<Rightarrow> bool" where
  "truthy_enum x = (x \<noteq> None)"

definition truthy_str :: "string option \<Rightarrow> bool" where
  "truthy_str x = (case x of None \<Rightarrow> False | Some v \<Rightarrow> v \<noteq> [])"

definition filter_teapots :: "TeapotQuery \<Rightarrow> Teapot list \<Rightarrow> Teapot list" where
  "filter_teapots query items =
     (let items = (if truthy_enum (teapotq_material query)
                   then filter (\<lambda>t. Some (teapot_material t) = teapotq_material query) items
                   else items);
          items = (if truthy_enum (teapotq_style query)
                   then filter (\<lambda>t. Some (teapot_style t) = teapotq_style query) items
                   else items)
      in items)"

definition list_teapots :: "MemoryStore \<Rightarrow> TeapotQuery \<Rightarrow> Teapot list \<times> int" where
  "list_teapots s query =
     paginate (filter_teapots query (dict_values (teapots s)))
       (teapotq_page query) (teapotq_limit query)"

subsection \<open>Teas\<close>

definition filter_teas :: "TeaQuery \<Rightarrow> Tea list \<Rightarrow> Tea list" where
  "filter_teas query items =
     (let items = (if truthy_enum (teaq_type query)
                   then filter (\<lambda>t. Some (tea_type t) = teaq_type query) items
                   else items);
          items = (if truthy_enum (teaq_caffeine_level query)
                   then filter (\<lambda>t. Some (tea_caffeine_level t) = teaq_caffeine_level query) items
                   else items)
      in items)"

definition list_teas :: "MemoryStore \<Rightarrow> TeaQuery \<Rightarrow> Tea list \<times> int" where
  "list_teas s query =
     paginate (filter_teas query (dict_values (teas s)))
       (teaq_page query) (teaq_limit query)"

definition create_tea :: "MemoryStore \<Rightarrow> Tea \<Rightarrow> MemoryStore" where
  "create_tea s tea = s\<lparr>teas := dict_set (teas s) (tea_id tea) tea\<rparr>"

definition get_tea :: "MemoryStore \<Rightarrow> string \<Rightarrow> Tea option" where
  "get_tea s i = dict_get (teas s) i"

definition update_tea :: "MemoryStore \<Rightarrow> Tea \<Rightarrow> MemoryStore" where
  "update_tea s tea = s\<lparr>teas := dict_set (teas s) (tea_id tea) tea\<rparr>"

definition delete_tea :: "MemoryStore \<Rightarrow> string \<Rightarrow> bool \<times> MemoryStore" where
  "delete_tea s i =
     (if \<not> dict_contains (teas s) i then (False, s)
      else (True, s\<lparr>teas := dict_del (teas s) i\<rparr>))"

subsection \<open>Brews\<close>

definition create_brew :: "MemoryStore \<Rightarrow> Brew \<Rightarrow> MemoryStore" where
  "create_brew s brew = s\<lparr>brews := dict_set (brews s) (brew_id brew) brew\<rparr>"

definition get_brew :: "MemoryStore \<Rightarrow> string \<Rightarrow> Brew option" where
  "get_brew s i = dict_get (brews s) i"

definition update_brew :: "MemoryStore \<Rightarrow> Brew \<Rightarrow> MemoryStore" where
  "update_brew s brew = s\<lparr>brews := dict_set (brews s) (brew_id brew) brew\<rparr>"

text \<open>
  \<^verbatim>\<open>delete_brew\<close> rebuilds \<^verbatim>\<open>self._steeps\<close> by a dict comprehension over its items, which
  keeps the order of the surviving entries.
\<close>

definition delete_brew :: "MemoryStore \<Rightarrow> string \<Rightarrow> bool \<times> MemoryStore" where
  "delete_brew s i =
     (if \<not> dict_contains (brews s) i then (False, s)
      else (True, s\<lparr>brews := dict_del (brews s) i,
                     steeps := filter (\<lambda>(k, v). steep_brew_id v \<noteq> i) (steeps s)\<rparr>))"

definition filter_brews :: "BrewQuery \<Rightarrow> Brew list \<Rightarrow> Brew list" where
  "filter_brews query items =
     (let items = (if truthy_enum (brewq_status query)
                   then filter (\<lambda>b. Some (brew_status b) = brewq_status query) items
                   else items);
          items = (if truthy_str (brewq_teapot_id query)
                   then filter (\<lambda>b. Some (brew_teapot_id b) = brewq_teapot_id query) items
                   else items);
          items = (if truthy_str (brewq_tea_id query)
                   then filter (\<lambda>b. Some (brew_tea_id b) = brewq_tea_id query) items
                   else items)
      in items)"

definition list_brews :: "MemoryStore \<Rightarrow> BrewQuery \<Rightarrow> Brew list \<times> int" where
  "list_brews s query =
     paginate (filter_brews query (dict_values (brews s)))
       (brewq_page query) (brewq_limit query)"

definition list_brews_by_teapot ::
  "MemoryStore \<Rightarrow> string \<Rightarrow> PaginationQuery \<Rightarrow> Brew list \<times> int" where
  "list_brews_by_teapot s tid query =
     paginate (filter (\<lambda>b. brew_teapot_id b = tid) (dict_values (brews s)))
       (pagq_page query) (pagq_limit query)"

subsection \<open>Steeps\<close>

text \<open>
  \<^verbatim>\<open>list_steeps_by_brew\<close> sorts the steeps of the brew by steep number before it
  paginates. \<^verbatim>\<open>list.sort\<close> is stable, as \<open>sort_key\<close> is: steeps with the same number
  stay in the order of the dictionary.
\<close>

definition list_steeps_by_brew ::
  "MemoryStore \<Rightarrow> string \<Rightarrow> PaginationQuery \<Rightarrow> Steep list \<times> int" where
  "list_steeps_by_brew s b query =
     (let items = filter (\<lambda>st. steep_brew_id st = b) (dict_values (steeps s));
          items = sort_key steep_number items
      in paginate items (pagq_page query) (pagq_limit query))"

definition create_steep :: "MemoryStore \<Rightarrow> Steep \<Rightarrow> MemoryStore" where
  "create_steep s steep = s\<lparr>steeps := dict_set (steeps s) (steep_id steep) steep\<rparr>"

definition get_steep :: "MemoryStore \<Rightarrow> string \<Rightarrow> Steep option" where
  "get_steep s i = dict_get (steeps s) i"

text \<open>
  \<^verbatim>\<open>get_next_steep_number\<close> returns the number together with the store it leaves behind,
  so that its effect on the store can be stated. Python's \<^verbatim>\<open>max\<close> over the non-empty
  list is a left-to-right fold starting from the first element.
\<close>

definition get_next_steep_number :: "MemoryStore \<Rightarrow> string \<Rightarrow> int \<times> MemoryStore" where
  "get_next_steep_number s b =
     (let existing = filter (\<lambda>st. steep_brew_id st = b) (dict_values (steeps s))
      in case existing of
           [] \<Rightarrow> (1, s)
         | x # xs \<Rightarrow> (fold max (map steep_number xs) (steep_number x) + 1, s))"


section \<open>The request layer (app/routes)\<close>

text \<open>
  A handler returns a JSON body with a status code. \<open>Json x c\<close> is an entity with status
  \<open>c\<close>, \<open>ErrorJson code message c\<close> is an \<^verbatim>\<open>ErrorResponse\<close> with status \<open>c\<close> (its
  \<^verbatim>\<open>details\<close> are pydantic's messages and are left out), and \<open>Raised\<close> is a pydantic
  \<^verbatim>\<open>ValidationError\<close> that the handler does not catch. The request body is taken after
  JSON decoding, as typed fields; the values of \<^verbatim>\<open>uuid4()\<close> and
  \<^verbatim>\<open>datetime.now(timezone.utc)\<close> are arguments of the handler.
\<close>

datatype 'a Reply = Json 'a int | ErrorJson string string int | Raised

definition opt_all :: "('a \<Rightarrow> bool) \<Rightarrow> 'a option \<Rightarrow> bool" where
  "opt_all P x = (case x of None \<Rightarrow> True | Some v \<Rightarrow> P v)"

subsection \<open>Field constraints of the entities\<close>

definition Teapot_valid :: "Teapot \<Rightarrow> bool" where
  "Teapot_valid t =
     (1 \<le> length (teapot_name t) \<and> length (teapot_name t) \<le> 100 \<and>
      1 \<le> teapot_capacity_ml t \<and> teapot_capacity_ml t \<le> 5000 \<and>
      opt_all (\<lambda>d. length d \<le> 500) (teapot_description t))"

definition Tea_valid :: "Tea \<Rightarrow> bool" where
  "Tea_valid t =
     (1 \<le> length (tea_name t) \<and> length (tea_name t) \<le> 100 \<and>
      opt_all (\<lambda>d. length d \<le> 100) (tea_origin t) \<and>
      60 \<le> tea_steep_temp_celsius t \<and> tea_steep_temp_celsius t \<le> 100 \<and>
      1 \<le> tea_steep_time_seconds t \<and> tea_steep_time_seconds t \<le> 600 \<and>
      opt_all (\<lambda>d. length d \<le> 1000) (tea_description t))"

definition Brew_valid :: "Brew \<Rightarrow> bool" where
  "Brew_valid b =
     (60 \<le> brew_water_temp_celsius b \<and> brew_water_temp_celsius b \<le> 100 \<and>
      opt_all (\<lambda>d. length d \<le> 500) (brew_notes b))"

definition Steep_valid :: "Steep \<Rightarrow> bool" where
  "Steep_valid st =
     (1 \<le> steep_number st \<and> 1 \<le> steep_duration_seconds st \<and>
      opt_all (\<lambda>r. 1 \<le> r \<and> r \<le> 5) (steep_rating st) \<and>
      opt_all (\<lambda>d. length d \<le> 200) (steep_notes st))"

subsection \<open>POST /brews\<close>

record CreateBrewRequest =
  cbr_teapot_id :: string
  cbr_tea_id :: string
  cbr_water_temp_celsius :: "int option"
  cbr_notes :: "string option"

definition CreateBrewRequest_valid :: "CreateBrewRequest \<Rightarrow> bool" where
  "CreateBrewRequest_valid data =
     (opt_all (\<lambda>w. 60 \<le> w \<and> w \<le> 100) (cbr_water_temp_celsius data) \<and>
      opt_all (\<lambda>d. length d \<le> 500) (cbr_notes data))"

text \<open>
  \<^verbatim>\<open>data.water_temp_celsius if data.water_temp_celsius else tea.steep_temp_celsius\<close>
  tests the integer for truthiness: \<^verbatim>\<open>None\<close> and \<^verbatim>\<open>0\<close> both select the tea's value.
\<close>

definition route_create_brew ::
  "MemoryStore \<Rightarrow> CreateBrewRequest \<Rightarrow> string \<Rightarrow> datetime \<Rightarrow> Brew Reply \<times> MemoryStore" where
  "route_create_brew s data uuid now =
     (if \<not> CreateBrewRequest_valid data
      then (ErrorJson ''VALIDATION_ERROR'' ''Invalid request body'' 400, s)
      else case get_teapot s (cbr_teapot_id data) of
        None \<Rightarrow> (ErrorJson ''NOT_FOUND'' ''Teapot not found'' 400, s)
      | Some teapot \<Rightarrow>
         (case get_tea s (cbr_tea_id data) of
            None \<Rightarrow> (ErrorJson ''NOT_FOUND'' ''Tea not found'' 400, s)
          | Some tea \<Rightarrow>
             (let water_temp =
                    (case cbr_water_temp_celsius data of
                       None \<Rightarrow> tea_steep_temp_celsius tea
                     | Some w \<Rightarrow> if w \<noteq> 0 then w else tea_steep_temp_celsius tea);
                  brew = \<lparr>brew_id = uuid, brew_teapot_id = cbr_teapot_id data,
                          brew_tea_id = cbr_tea_id data, brew_status = PREPARING,
                          brew_water_temp_celsius = water_temp, brew_notes = cbr_notes data,
                          brew_started_at = now, brew_completed_at = None,
                          brew_created_at = now, brew_updated_at = now\<rparr>
              in if \<not> Brew_valid brew then (Raised, s)
                 else (Json brew 201, create_brew s brew))))"

subsection \<open>PATCH\<close>

text \<open>
  A field of a patch body has three states, which \<^verbatim>\<open>model_dump(exclude_unset=True)\<close>
  tells apart: \<open>None\<close> is a key the body does not have, \<open>Some None\<close> is an explicit
  \<^verbatim>\<open>null\<close>, \<open>Some (Some v)\<close> is a value. \<open>patched old p\<close> is the entry of the merged
  dictionary (\<^verbatim>\<open>existing.model_dump()\<close> updated with the dumped patch) for a field whose stored
  value is \<open>old\<close>; the merged dictionary is then validated as a whole entity, where a
  \<^verbatim>\<open>null\<close> in a field that is not nullable raises.
\<close>

definition patched :: "'a option \<Rightarrow> 'a option option \<Rightarrow> 'a option" where
  "patched old p = (case p of None \<Rightarrow> old | Some v \<Rightarrow> v)"

record PatchTeapotRequest =
  ptp_name :: "string option option"
  ptp_material :: "TeapotMaterial option option"
  ptp_capacity_ml :: "int option option"
  ptp_style :: "TeapotStyle option option"
  ptp_description :: "string option option"

definition opt2_all :: "('a \<Rightarrow> bool) \<Rightarrow> 'a option option \<Rightarrow> bool" where
  "opt2_all P x = (case x of Some (Some v) \<Rightarrow> P v | _ \<Rightarrow> True)"

definition PatchTeapotRequest_valid :: "PatchTeapotRequest \<Rightarrow> bool" where
  "PatchTeapotRequest_valid data =
     (opt2_all (\<lambda>n. 1 \<le> length n \<and> length n \<le> 100) (ptp_name data) \<and>
      opt2_all (\<lambda>c. 1 \<le> c \<and> c \<le> 5000) (ptp_capacity_ml data) \<and>
      opt2_all (\<lambda>d. length d \<le> 500) (ptp_description data))"

record TeapotData =
  td_id :: string
  td_name :: "string option"
  td_material :: "TeapotMaterial option"
  td_capacity_ml :: "int option"
  td_style :: "TeapotStyle option"
  td_description :: "string option"
  td_created_at :: datetime
  td_updated_at :: datetime

definition Teapot_model_validate :: "TeapotData \<Rightarrow> Teapot option" where
  "Teapot_model_validate d =
     (case (td_name d, td_material d, td_capacity_ml d, td_style d) of
        (Some n, Some m, Some c, Some st) \<Rightarrow>
          (let t = \<lparr>teapot_id = td_id d, teapot_name = n, teapot_material = m,
                    teapot_capacity_ml = c, teapot_style = st,
                    teapot_description = td_description d,
                    teapot_created_at = td_created_at d,
                    teapot_updated_at = td_updated_at d\<rparr>
           in if Teapot_valid t then Some t else None)
      | _ \<Rightarrow> None)"

definition route_patch_teapot ::
  "MemoryStore \<Rightarrow> string \<Rightarrow> PatchTeapotRequest \<Rightarrow> datetime \<Rightarrow> Teapot Reply \<times> MemoryStore" where
  "route_patch_teapot s i data now =
     (case get_teapot s i of
        None \<Rightarrow> (ErrorJson ''NOT_FOUND'' ''Teapot not found'' 404, s)
      | Some existing \<Rightarrow>
         (if \<not> PatchTeapotRequest_valid data
          then (ErrorJson ''VALIDATION_ERROR'' ''Invalid request body'' 400, s)
          else
            (let teapot_data =
                   \<lparr>td_id = teapot_id existing,
                    td_name = patched (Some (teapot_name existing)) (ptp_name data),
                    td_material = patched (Some (teapot_material existing)) (ptp_material data),
                    td_capacity_ml =
                      patched (Some (teapot_capacity_ml existing)) (ptp_capacity_ml data),
                    td_style = patched (Some (teapot_style existing)) (ptp_style data),
                    td_description =
                      patched (teapot_description existing) (ptp_description data),
                    td_created_at = teapot_created_at existing,
                    td_updated_at = now\<rparr>
             in case Teapot_model_validate teapot_data of
                  None \<Rightarrow> (Raised, s)
                | Some teapot \<Rightarrow> (Json teapot 200, update_teapot s teapot))))"

record PatchTeaRequest =
  pta_name :: "string option option"
  pta_type :: "TeaType option option"
  pta_origin :: "string option option"
  pta_caffeine_level :: "CaffeineLevel option option"
  pta_steep_temp_celsius :: "int option option"
  pta_steep_time_seconds :: "int option option"
  pta_description :: "string option option"

definition PatchTeaRequest_valid :: "PatchTeaRequest \<Rightarrow> bool" where
  "PatchTeaRequest_valid data =
     (opt2_all (\<lambda>n. 1 \<le> length n \<and> length n \<le> 100) (pta_name data) \<and>
      opt2_all (\<lambda>d. length d \<le> 100) (pta_origin data) \<and>
      opt2_all (\<lambda>c. 60 \<le> c \<and> c \<le> 100) (pta_steep_temp_celsius data) \<and>
      opt2_all (\<lambda>c. 1 \<le> c \<and> c \<le> 600) (pta_steep_time_seconds data) \<and>
      opt2_all (\<lambda>d. length d \<le> 1000) (pta_description data))"

record TeaData =
  ted_id :: string
  ted_name :: "string option"
  ted_type :: "TeaType option"
  ted_origin :: "string option"
  ted_caffeine_level :: "CaffeineLevel option"
  ted_steep_temp_celsius :: "int option"
  ted_steep_time_seconds :: "int option"
  ted_description :: "string option"
  ted_created_at :: datetime
  ted_updated_at :: datetime

definition Tea_model_validate :: "TeaData \<Rightarrow> Tea option" where
  "Tea_model_validate d =
     (case (ted_name d, ted_type d, ted_caffeine_level d,
            ted_steep_temp_celsius d, ted_steep_time_seconds d) of
        (Some n, Some ty, Some cl, Some temp, Some time) \<Rightarrow>
          (let t = \<lparr>tea_id = ted_id d, tea_name = n, tea_type = ty,
                    tea_origin = ted_origin d, tea_caffeine_level = cl,
                    tea_steep_temp_celsius = temp, tea_steep_time_seconds = time,
                    tea_description = ted_description d,
                    tea_created_at = ted_created_at d,
                    tea_updated_at = ted_updated_at d\<rparr>
           in if Tea_valid t then Some t else None)
      | _ \<Rightarrow> None)"

definition route_patch_tea ::
  "MemoryStore \<Rightarrow> string \<Rightarrow> PatchTeaRequest \<Rightarrow> datetime \<Rightarrow> Tea Reply \<times> MemoryStore" where
  "route_patch_tea s i data now =
     (case get_tea s i of
        None \<Rightarrow> (ErrorJson ''NOT_FOUND'' ''Tea not found'' 404, s)
      | Some existing \<Rightarrow>
         (if \<not> PatchTeaRequest_valid data
          then (ErrorJson ''VALIDATION_ERROR'' ''Invalid request body'' 400, s)
          else
            (let tea_data =
                   \<lparr>ted_id = tea_id existing,
                    ted_name = patched (Some (tea_name existing)) (pta_name data),
                    ted_type = patched (Some (tea_type existing)) (pta_type data),
                    ted_origin = patched (tea_origin existing) (pta_origin data),
                    ted_caffeine_level =
                      patched (Some (tea_caffeine_level existing)) (pta_caffeine_level data),
                    ted_steep_temp_celsius =
                      patched (Some (tea_steep_temp_celsius existing))
                        (pta_steep_temp_celsius data),
                    ted_steep_time_seconds =
                      patched (Some (tea_steep_time_seconds existing))
                        (pta_steep_time_seconds data),
                    ted_description = patched (tea_description existing) (pta_description data),
                    ted_created_at = tea_created_at existing,
                    ted_updated_at = now\<rparr>
             in case Tea_model_validate tea_data of
                  None \<Rightarrow> (Raised, s)
                | Some tea \<Rightarrow> (Json tea 200, update_tea s tea))))"

record PatchBrewRequest =
  pbr_status :: "BrewStatus option option"
  pbr_notes :: "string option option"
  pbr_completed_at :: "datetime option option"

definition PatchBrewRequest_valid :: "PatchBrewRequest \<Rightarrow> bool" where
  "PatchBrewRequest_valid data = opt2_all (\<lambda>d. length d \<le> 500) (pbr_notes data)"

record BrewData =
  bd_id :: string
  bd_teapot_id :: string
  bd_tea_id :: string
  bd_status :: "BrewStatus option"
  bd_water_temp_celsius :: int
  bd_notes :: "string option"
  bd_started_at :: datetime
  bd_completed_at :: "datetime option"
  bd_created_at :: datetime
  bd_updated_at :: datetime

definition Brew_model_validate :: "BrewData \<Rightarrow> Brew option" where
  "Brew_model_validate d =
     (case bd_status d of
        Some st \<Rightarrow>
          (let b = \<lparr>brew_id = bd_id d, brew_teapot_id = bd_teapot_id d,
                    brew_tea_id = bd_tea_id d, brew_status = st,
                    brew_water_temp_celsius = bd_water_temp_celsius d,
                    brew_notes = bd_notes d, brew_started_at = bd_started_at d,
                    brew_completed_at = bd_completed_at d,
                    brew_created_at = bd_created_at d,
                    brew_updated_at = bd_updated_at d\<rparr>
           in if Brew_valid b then Some b else None)
      | None \<Rightarrow> None)"

definition route_patch_brew ::
  "MemoryStore \<Rightarrow> string \<Rightarrow> PatchBrewRequest \<Rightarrow> datetime \<Rightarrow> Brew Reply \<times> MemoryStore" where
  "route_patch_brew s i data now =
     (case get_brew s i of
        None \<Rightarrow> (ErrorJson ''NOT_FOUND'' ''Brew not found'' 404, s)
      | Some existing \<Rightarrow>
         (if \<not> PatchBrewRequest_valid data
          then (ErrorJson ''VALIDATION_ERROR'' ''Invalid request body'' 400, s)
          else
            (let brew_data =
                   \<lparr>bd_id = brew_id existing,
                    bd_teapot_id = brew_teapot_id existing,
                    bd_tea_id = brew_tea_id existing,
                    bd_status = patched (Some (brew_status existing)) (pbr_status data),
                    bd_water_temp_celsius = brew_water_temp_celsius existing,
                    bd_notes = patched (brew_notes existing) (pbr_notes data),
                    bd_started_at = brew_started_at existing,
                    bd_completed_at =
                      patched (brew_completed_at existing) (pbr_completed_at data),
                    bd_created_at = brew_created_at existing,
                    bd_updated_at = now\<rparr>
             in case Brew_model_validate brew_data of
                  None \<Rightarrow> (Raised, s)
                | Some brew \<Rightarrow> (Json brew 200, update_brew s brew))))"


subsection \<open>POST /brews/<brew_id>/steeps\<close>

record CreateSteepRequest =
  csr_duration_seconds :: int
  csr_rating :: "int option"
  csr_notes :: "string option"

definition CreateSteepRequest_valid :: "CreateSteepRequest \<Rightarrow> bool" where
  "CreateSteepRequest_valid data =
     (1 \<le> csr_duration_seconds data \<and>
      opt_all (\<lambda>r. 1 \<le> r \<and> r \<le> 5) (csr_rating data) \<and>
      opt_all (\<lambda>d. length d \<le> 200) (csr_notes data))"

definition build_steep :: "string \<Rightarrow> CreateSteepRequest \<Rightarrow> string \<Rightarrow> datetime \<Rightarrow> int \<Rightarrow> Steep" where
  "build_steep b data uuid now n =
     \<lparr>steep_id = uuid, steep_brew_id = b, steep_number = n,
      steep_duration_seconds = csr_duration_seconds data, steep_rating = csr_rating data,
      steep_notes = csr_notes data, steep_created_at = now\<rparr>"

definition route_create_steep ::
  "MemoryStore \<Rightarrow> string \<Rightarrow> CreateSteepRequest \<Rightarrow> string \<Rightarrow> datetime
     \<Rightarrow> Steep Reply \<times> MemoryStore" where
  "route_create_steep s b data uuid now =
     (case get_brew s b of
        None \<Rightarrow> (ErrorJson ''NOT_FOUND'' ''Brew not found'' 404, s)
      | Some brew \<Rightarrow>
         (if \<not> CreateSteepRequest_valid data
          then (ErrorJson ''VALIDATION_ERROR'' ''Invalid request body'' 400, s)
          else
            (let (n, s1) = get_next_steep_number s b;
                 steep = build_steep b data uuid now n
             in if \<not> Steep_valid steep then (Raised, s1)
                else (Json steep 201, create_steep s1 steep))))"

text \<open>
  The handler makes three calls to the store, \<^verbatim>\<open>get_brew\<close>, \<^verbatim>\<open>get_next_steep_number\<close>
  and \<^verbatim>\<open>create_steep\<close>, and each call takes and releases the lock by itself. Under the
  threaded server the handlers of two requests therefore interleave at these calls. A
  running handler is at one of three calls or has returned; \<open>steep_handler_step\<close> runs
  it up to and including its next call to the store.
\<close>

record SteepCall =
  call_brew_id :: string
  call_data :: CreateSteepRequest
  call_uuid :: string
  call_now :: datetime

datatype SteepHandler =
    AtGetBrew
  | AtGetNextSteepNumber
  | AtCreateSteep Steep
  | Returned "Steep Reply"

fun steep_handler_step ::
  "SteepCall \<Rightarrow> SteepHandler \<Rightarrow> MemoryStore \<Rightarrow> SteepHandler \<times> MemoryStore" where
  "steep_handler_step c AtGetBrew s =
     (case get_brew s (call_brew_id c) of
        None \<Rightarrow> (Returned (ErrorJson ''NOT_FOUND'' ''Brew not found'' 404), s)
      | Some brew \<Rightarrow>
         (if \<not> CreateSteepRequest_valid (call_data c)
          then (Returned (ErrorJson ''VALIDATION_ERROR'' ''Invalid request body'' 400), s)
          else (AtGetNextSteepNumber, s)))"
| "steep_handler_step c AtGetNextSteepNumber s =
     (let (n, s1) = get_next_steep_number s (call_brew_id c);
          steep = build_steep (call_brew_id c) (call_data c) (call_uuid c) (call_now c) n
      in if \<not> Steep_valid steep then (Returned Raised, s1)
         else (AtCreateSteep steep, s1))"
| "steep_handler_step c (AtCreateSteep steep) s =
     (Returned (Json steep 201), create_steep s steep)"
| "steep_handler_step c (Returned r) s = (Returned r, s)"

datatype Thread = First | Second

text \<open>
  Two requests served by two threads: the schedule says which thread makes the next call.
\<close>

fun run_schedule ::
  "SteepCall \<Rightarrow> SteepCall \<Rightarrow> Thread list \<Rightarrow> SteepHandler \<times> SteepHandler \<times> MemoryStore
     \<Rightarrow> SteepHandler \<times> SteepHandler \<times> MemoryStore" where
  "run_schedule c1 c2 [] cfg = cfg"
| "run_schedule c1 c2 (First # sched) (h1, h2, s) =
     (let (h1', s') = steep_handler_step c1 h1 s in run_schedule c1 c2 sched (h1', h2, s'))"
| "run_schedule c1 c2 (Second # sched) (h1, h2, s) =
     (let (h2', s') = steep_handler_step c2 h2 s in run_schedule c1 c2 sched (h1, h2', s'))"


section \<open>Filter matching in the words of the specification\<close>

text \<open>
  The specification describes the filters as exact-match equality on the supplied fields,
  combined by a logical and, where an absent field imposes no constraint. The three
  predicates below say this for each query model; they are compared with the filters of
  the store. \<open>amended_brew_matches\<close> differs from \<open>spec_brew_matches\<close> in the two string
  fields, where an empty string imposes no constraint either.
\<close>

definition spec_teapot_matches :: "TeapotQuery \<Rightarrow> Teapot \<Rightarrow> bool" where
  "spec_teapot_matches q t =
     (opt_all (\<lambda>v. teapot_material t = v) (teapotq_material q) \<and>
      opt_all (\<lambda>v. teapot_style t = v) (teapotq_style q))"

definition spec_tea_matches :: "TeaQuery \<Rightarrow> Tea \<Rightarrow> bool" where
  "spec_tea_matches q t =
     (opt_all (\<lambda>v. tea_type t = v) (teaq_type q) \<and>
      opt_all (\<lambda>v. tea_caffeine_level t = v) (teaq_caffeine_level q))"

definition spec_brew_matches :: "BrewQuery \<Rightarrow> Brew \<Rightarrow> bool" where
  "spec_brew_matches q b =
     (opt_all (\<lambda>v. brew_status b = v) (brewq_status q) \<and>
      opt_all (\<lambda>v. brew_teapot_id b = v) (brewq_teapot_id q) \<and>
      opt_all (\<lambda>v. brew_tea_id b = v) (brewq_tea_id q))"

definition amended_brew_matches :: "BrewQuery \<Rightarrow> Brew \<Rightarrow> bool" where
  "amended_brew_matches q b =
     (opt_all (\<lambda>v. brew_status b = v) (brewq_status q) \<and>
      opt_all (\<lambda>v. v = [] \<or> brew_teapot_id b = v) (brewq_teapot_id q) \<and>
      opt_all (\<lambda>v. v = [] \<or> brew_tea_id b = v) (brewq_tea_id q))"


section \<open>Example data\<close>

definition steep_a1 :: Steep where
  "steep_a1 = \<lparr>steep_id = ''s1'', steep_brew_id = ''brew-a'', steep_number = 1,
     steep_duration_seconds = 30, steep_rating = None, steep_notes = None,
     steep_created_at = 10\<rparr>"

definition steep_b1 :: Steep where
  "steep_b1 = \<lparr>steep_id = ''s2'', steep_brew_id = ''brew-b'', steep_number = 1,
     steep_duration_seconds = 45, steep_rating = Some 4, steep_notes = None,
     steep_created_at = 11\<rparr>"

definition steep_a2 :: Steep where
  "steep_a2 = \<lparr>steep_id = ''s3'', steep_brew_id = ''brew-a'', steep_number = 2,
     steep_duration_seconds = 40, steep_rating = None, steep_notes = Some ''mild'',
     steep_created_at = 12\<rparr>"

definition teapot_1 :: Teapot where
  "teapot_1 = \<lparr>teapot_id = ''pot-1'', teapot_name = ''Kettle'', teapot_material = CERAMIC,
     teapot_capacity_ml = 500, teapot_style = ENGLISH, teapot_description = Some ''blue'',
     teapot_created_at = 1, teapot_updated_at = 5\<rparr>"

definition tea_1 :: Tea where
  "tea_1 = \<lparr>tea_id = ''tea-1'', tea_name = ''Sencha'', tea_type = GREEN, tea_origin = None,
     tea_caffeine_level = MEDIUM, tea_steep_temp_celsius = 80, tea_steep_time_seconds = 120,
     tea_description = None, tea_created_at = 2, tea_updated_at = 2\<rparr>"

definition brew_a :: Brew where
  "brew_a = \<lparr>brew_id = ''brew-a'', brew_teapot_id = ''pot-1'', brew_tea_id = ''tea-1'',
     brew_status = PREPARING, brew_water_temp_celsius = 80, brew_notes = None,
     brew_started_at = 3, brew_completed_at = None, brew_created_at = 3,
     brew_updated_at = 3\<rparr>"

definition brew_b :: Brew where
  "brew_b = \<lparr>brew_id = ''brew-b'', brew_teapot_id = ''pot-1'', brew_tea_id = ''tea-1'',
     brew_status = STEEPING, brew_water_temp_celsius = 75, brew_notes = Some ''second'',
     brew_started_at = 4, brew_completed_at = None, brew_created_at = 4,
     brew_updated_at = 4\<rparr>"

definition brew_request_1 :: CreateBrewRequest where
  "brew_request_1 = \<lparr>cbr_teapot_id = ''pot-1'', cbr_tea_id = ''tea-1'',
     cbr_water_temp_celsius = None, cbr_notes = None\<rparr>"

definition brew_query_all :: BrewQuery where
  "brew_query_all = \<lparr>brewq_page = 1, brewq_limit = 20, brewq_status = None,
     brewq_teapot_id = None, brewq_tea_id = None\<rparr>"

definition teapot_patch_1 :: PatchTeapotRequest where
  "teapot_patch_1 = \<lparr>ptp_name = Some (Some ''Pot''), ptp_material = None,
     ptp_capacity_ml = None, ptp_style = None, ptp_description = Some None\<rparr>"

definition tea_patch_1 :: PatchTeaRequest where
  "tea_patch_1 = \<lparr>pta_name = None, pta_type = None, pta_origin = Some (Some ''Uji''),
     pta_caffeine_level = None, pta_steep_temp_celsius = Some (Some 75),
     pta_steep_time_seconds = None, pta_description = None\<rparr>"

definition brew_patch_1 :: PatchBrewRequest where
  "brew_patch_1 = \<lparr>pbr_status = Some (Some READY), pbr_notes = Some None,
     pbr_completed_at = None\<rparr>"

definition steep_request_1 :: CreateSteepRequest where
  "steep_request_1 = \<lparr>csr_duration_seconds = 60, csr_rating = None, csr_notes = None\<rparr>"

definition steep_call_1 :: SteepCall where
  "steep_call_1 = \<lparr>call_brew_id = ''brew-a'', call_data = steep_request_1,
     call_uuid = ''s4'', call_now = 20\<rparr>"

definition steep_call_2 :: SteepCall where
  "steep_call_2 = \<lparr>call_brew_id = ''brew-a'', call_data = steep_request_1,
     call_uuid = ''s5'', call_now = 21\<rparr>"

definition store_1 :: MemoryStore where
  "store_1 = \<lparr>teapots = [(''pot-1'', teapot_1)], teas = [(''tea-1'', tea_1)],
     brews = [(''brew-a'', brew_a), (''brew-b'', brew_b)],
     steeps = [(''s1'', steep_a1), (''s2'', steep_b1), (''s3'', steep_a2)]\<rparr>"

text \<open>
  A store that the handlers reach from \<open>store_1\<close>. The first request for \<open>brew-a\<close> reads
  its steep number, 3, and is then delayed; a second request runs to its end and stores
  \<open>s5\<close> with number 3; a third request runs to its end and stores \<open>s6\<close> with number 4;
  then the first request stores \<open>s4\<close> with number 3.
\<close>

definition store_raced :: MemoryStore where
  "store_raced =
     (let (h1, h2, s) =
            run_schedule steep_call_1 steep_call_2 [First, First, Second, Second, Second]
              (AtGetBrew, AtGetBrew, store_1);
          (r3, s) = route_create_steep s ''brew-a'' steep_request_1 ''s6'' 22;
          (h1, h2, s) = run_schedule steep_call_1 steep_call_2 [First] (h1, h2, s)
      in s)"


section \<open>Dictionary lemmas\<close>

lemma dict_get_map_of: "dict_get d k = map_of d k"
  by (induction d) auto

lemma dict_get_set_same: "dict_get (dict_set d k v) k = Some v"
  by (induction d) auto

lemma dict_get_set_other: "k' \<noteq> k \<Longrightarrow> dict_get (dict_set d k v) k' = dict_get d k'"
  by (induction d) auto

lemma dict_get_del_same: "dict_get (dict_del d k) k = None"
  by (induction d) (auto simp: dict_del_def)

lemma dict_get_del_other: "k' \<noteq> k \<Longrightarrow> dict_get (dict_del d k) k' = dict_get d k'"
  by (induction d) (auto simp: dict_del_def)

lemma dict_keys_set:
  "map fst (dict_set d k v) = (if k \<in> set (map fst d) then map fst d else map fst d @ [k])"
  by (induction d) force+

lemma dict_set_distinct: "distinct (map fst d) \<Longrightarrow> distinct (map fst (dict_set d k v))"
  by (simp add: dict_keys_set)

lemma dict_del_distinct: "distinct (map fst d) \<Longrightarrow> distinct (map fst (dict_del d k))"
  by (simp add: dict_del_def distinct_map_filter)

lemma dict_set_absent: "dict_get d k = None \<Longrightarrow> dict_set d k v = d @ [(k, v)]"
  by (induction d) (auto split: if_splits)

lemma fold_max_Max: "fold max xs (x::int) = Max (set (x # xs))"
  by (rule Max.set_eq_fold [symmetric])


section \<open>Steep numbering\<close>

text \<open>
  Claim C2. For every store and every brew id, \<^verbatim>\<open>get_next_steep_number\<close> returns 1 when
  no stored steep has that brew id, and otherwise one more than the largest steep number
  among the stored steeps with that brew id; the store it leaves behind is the store it
  was called on.
\<close>

theorem get_next_steep_number_spec:
  "((\<forall>st \<in> set (dict_values (steeps s)). steep_brew_id st \<noteq> b) \<longrightarrow>
      fst (get_next_steep_number s b) = 1) \<and>
   ((\<exists>st \<in> set (dict_values (steeps s)). steep_brew_id st = b) \<longrightarrow>
      fst (get_next_steep_number s b) =
        Max (steep_number ` {st \<in> set (dict_values (steeps s)). steep_brew_id st = b}) + 1) \<and>
   snd (get_next_steep_number s b) = s"
proof -
  let ?own = "filter (\<lambda>st. steep_brew_id st = b) (dict_values (steeps s))"
  have set_own: "set ?own = {st \<in> set (dict_values (steeps s)). steep_brew_id st = b}"
    by auto
  have none: "(\<forall>st \<in> set (dict_values (steeps s)). steep_brew_id st \<noteq> b) \<Longrightarrow> ?own = []"
    by (simp add: filter_empty_conv)
  have some: "fst (get_next_steep_number s b) = Max (steep_number ` set ?own) + 1"
    if "?own \<noteq> []"
  proof -
    from that obtain x xs where eq: "?own = x # xs" by (cases ?own) auto
    have "fst (get_next_steep_number s b) = fold max (map steep_number xs) (steep_number x) + 1"
      by (simp add: get_next_steep_number_def eq)
    also have "fold max (map steep_number xs) (steep_number x) = Max (steep_number ` set ?own)"
      by (simp add: fold_max_Max eq)
    finally show ?thesis .
  qed
  have frame: "snd (get_next_steep_number s b) = s"
    by (simp add: get_next_steep_number_def split: list.splits)
  have nonempty: "(\<exists>st \<in> set (dict_values (steeps s)). steep_brew_id st = b) \<Longrightarrow> ?own \<noteq> []"
    by (auto simp: filter_empty_conv)
  show ?thesis
    using none some nonempty frame set_own
    by (auto simp: get_next_steep_number_def)
qed

text \<open>
  In \<open>store_1\<close> the brew \<open>brew-a\<close> has the steeps 1 and 2, so its next number is 3; no
  steep belongs to \<open>brew-z\<close>, whose next number is 1.
\<close>

theorem get_next_steep_number_spec_witness:
  "(\<exists>st \<in> set (dict_values (steeps store_1)). steep_brew_id st = ''brew-a'') \<and>
   \<not> (\<exists>st \<in> set (dict_values (steeps store_1)). steep_brew_id st = ''brew-z'') \<and>
   get_next_steep_number store_1 ''brew-a'' = (3, store_1) \<and>
   get_next_steep_number store_1 ''brew-z'' = (1, store_1)"
proof -
  have vals: "dict_values (steeps store_1) = [steep_a1, steep_b1, steep_a2]"
    by (simp add: store_1_def dict_values_def)
  have h1: "\<exists>st \<in> set (dict_values (steeps store_1)). steep_brew_id st = ''brew-a''"
    by (simp add: vals steep_a1_def)
  have h2: "\<forall>st \<in> set (dict_values (steeps store_1)). steep_brew_id st \<noteq> ''brew-z''"
    by (simp add: vals steep_a1_def steep_a2_def steep_b1_def)
  have own: "{st \<in> set (dict_values (steeps store_1)). steep_brew_id st = ''brew-a''}
      = {steep_a1, steep_a2}"
    by (auto simp: vals steep_a1_def steep_a2_def steep_b1_def)
  have m: "Max (steep_number ` {steep_a1, steep_a2}) + 1 = 3"
    by (simp add: steep_a1_def steep_a2_def)
  from get_next_steep_number_spec [of store_1 "''brew-a''"] h1 own m
  have a: "get_next_steep_number store_1 ''brew-a'' = (3, store_1)"
    by (simp add: prod_eq_iff)
  from get_next_steep_number_spec [of store_1 "''brew-z''"] h2
  have z: "get_next_steep_number store_1 ''brew-z'' = (1, store_1)"
    by (simp add: prod_eq_iff)
  from h1 h2 a z show ?thesis by blast
qed

section \<open>Deletion\<close>

text \<open>
  Claim C3. \<^verbatim>\<open>delete_brew\<close> returns \<^verbatim>\<open>True\<close> exactly when a brew with the id was stored.
  In that case, in the one step, the brew is gone, every other brew is found as before,
  the steeps are the former steeps without those of the deleted brew (the others in their
  order, unchanged), and teapots and teas are untouched. When no brew has the id the store
  is unchanged.
\<close>

theorem delete_brew_spec:
  "fst (delete_brew s i) = (get_brew s i \<noteq> None) \<and>
   (get_brew s i \<noteq> None \<longrightarrow>
      get_brew (snd (delete_brew s i)) i = None \<and>
      (\<forall>j. j \<noteq> i \<longrightarrow> get_brew (snd (delete_brew s i)) j = get_brew s j) \<and>
      steeps (snd (delete_brew s i)) = filter (\<lambda>(k, st). steep_brew_id st \<noteq> i) (steeps s) \<and>
      (\<forall>st \<in> set (dict_values (steeps (snd (delete_brew s i)))). steep_brew_id st \<noteq> i) \<and>
      teapots (snd (delete_brew s i)) = teapots s \<and>
      teas (snd (delete_brew s i)) = teas s) \<and>
   (get_brew s i = None \<longrightarrow> snd (delete_brew s i) = s)"
  by (auto simp: delete_brew_def get_brew_def dict_contains_def dict_values_def
        dict_get_del_same dict_get_del_other)

text \<open>
  Deleting \<open>brew-a\<close> from \<open>store_1\<close> removes its two steeps and keeps the steep of
  \<open>brew-b\<close>; deleting an unknown id changes nothing.
\<close>

theorem delete_brew_spec_witness:
  "get_brew store_1 ''brew-a'' \<noteq> None \<and>
   fst (delete_brew store_1 ''brew-a'') \<and>
   get_brew (snd (delete_brew store_1 ''brew-a'')) ''brew-a'' = None \<and>
   get_brew (snd (delete_brew store_1 ''brew-a'')) ''brew-b'' = Some brew_b \<and>
   steeps (snd (delete_brew store_1 ''brew-a'')) = [(''s2'', steep_b1)] \<and>
   get_brew store_1 ''brew-z'' = None \<and>
   \<not> fst (delete_brew store_1 ''brew-z'') \<and>
   snd (delete_brew store_1 ''brew-z'') = store_1"
proof -
  have a: "get_brew store_1 ''brew-a'' \<noteq> None"
    by (simp add: get_brew_def store_1_def)
  have b: "get_brew store_1 ''brew-b'' = Some brew_b"
    by (simp add: get_brew_def store_1_def)
  have z: "get_brew store_1 ''brew-z'' = None"
    by (simp add: get_brew_def store_1_def)
  have f: "filter (\<lambda>(k, st). steep_brew_id st \<noteq> ''brew-a'') (steeps store_1)
      = [(''s2'', steep_b1)]"
    by (simp add: store_1_def steep_a1_def steep_a2_def steep_b1_def)
  from delete_brew_spec [of store_1 "''brew-a''"] a b f
  have "fst (delete_brew store_1 ''brew-a'') \<and>
     get_brew (snd (delete_brew store_1 ''brew-a'')) ''brew-a'' = None \<and>
     get_brew (snd (delete_brew store_1 ''brew-a'')) ''brew-b'' = Some brew_b \<and>
     steeps (snd (delete_brew store_1 ''brew-a'')) = [(''s2'', steep_b1)]"
    by simp
  moreover from delete_brew_spec [of store_1 "''brew-z''"] z
  have "\<not> fst (delete_brew store_1 ''brew-z'') \<and> snd (delete_brew store_1 ''brew-z'') = store_1"
    by simp
  ultimately show ?thesis using a z by blast
qed

text \<open>
  Claim C9. Deleting a teapot or a tea succeeds exactly when the record was stored, whatever
  brews refer to it, and changes only the collection of the deleted record: brews and
  steeps, and the other of the two collections, are the same dictionaries afterwards.
\<close>

theorem delete_teapot_tea_frame:
  "fst (delete_teapot s i) = (get_teapot s i \<noteq> None) \<and>
   get_teapot (snd (delete_teapot s i)) i = None \<and>
   brews (snd (delete_teapot s i)) = brews s \<and>
   steeps (snd (delete_teapot s i)) = steeps s \<and>
   teas (snd (delete_teapot s i)) = teas s \<and>
   fst (delete_tea s i) = (get_tea s i \<noteq> None) \<and>
   get_tea (snd (delete_tea s i)) i = None \<and>
   brews (snd (delete_tea s i)) = brews s \<and>
   steeps (snd (delete_tea s i)) = steeps s \<and>
   teapots (snd (delete_tea s i)) = teapots s"
  by (simp add: delete_teapot_def delete_tea_def get_teapot_def get_tea_def
        dict_contains_def dict_get_del_same)


section \<open>Updates\<close>

text \<open>
  Claim C10. \<^verbatim>\<open>update_teapot\<close>, \<^verbatim>\<open>update_tea\<close> and \<^verbatim>\<open>update_brew\<close> return nothing
  and cannot fail: for every store and entity, the entity is afterwards found under its
  id, every other id is found as before, and when the id was not stored the entity is
  added at the end of its collection.
\<close>

theorem update_is_upsert:
  "get_teapot (update_teapot s teapot) (teapot_id teapot) = Some teapot \<and>
   (\<forall>j. j \<noteq> teapot_id teapot \<longrightarrow> get_teapot (update_teapot s teapot) j = get_teapot s j) \<and>
   (get_teapot s (teapot_id teapot) = None \<longrightarrow>
      teapots (update_teapot s teapot) = teapots s @ [(teapot_id teapot, teapot)]) \<and>
   get_tea (update_tea s tea) (tea_id tea) = Some tea \<and>
   (\<forall>j. j \<noteq> tea_id tea \<longrightarrow> get_tea (update_tea s tea) j = get_tea s j) \<and>
   (get_tea s (tea_id tea) = None \<longrightarrow>
      teas (update_tea s tea) = teas s @ [(tea_id tea, tea)]) \<and>
   get_brew (update_brew s brew) (brew_id brew) = Some brew \<and>
   (\<forall>j. j \<noteq> brew_id brew \<longrightarrow> get_brew (update_brew s brew) j = get_brew s j) \<and>
   (get_brew s (brew_id brew) = None \<longrightarrow>
      brews (update_brew s brew) = brews s @ [(brew_id brew, brew)])"
  by (simp add: update_teapot_def get_teapot_def update_tea_def get_tea_def
        update_brew_def get_brew_def
        dict_get_set_same dict_get_set_other dict_set_absent)

text \<open>Updating \<open>store_1\<close> with ids that it does not hold inserts the entities.\<close>

theorem update_is_upsert_witness:
  "get_teapot store_1 (teapot_id (teapot_1\<lparr>teapot_id := ''pot-9''\<rparr>)) = None \<and>
   get_tea store_1 (tea_id (tea_1\<lparr>tea_id := ''tea-9''\<rparr>)) = None \<and>
   get_brew store_1 (brew_id (brew_a\<lparr>brew_id := ''brew-9''\<rparr>)) = None \<and>
   teapots (update_teapot store_1 (teapot_1\<lparr>teapot_id := ''pot-9''\<rparr>))
     = [(''pot-1'', teapot_1), (''pot-9'', teapot_1\<lparr>teapot_id := ''pot-9''\<rparr>)] \<and>
   teas (update_tea store_1 (tea_1\<lparr>tea_id := ''tea-9''\<rparr>))
     = [(''tea-1'', tea_1), (''tea-9'', tea_1\<lparr>tea_id := ''tea-9''\<rparr>)] \<and>
   brews (update_brew store_1 (brew_a\<lparr>brew_id := ''brew-9''\<rparr>))
     = [(''brew-a'', brew_a), (''brew-b'', brew_b), (''brew-9'', brew_a\<lparr>brew_id := ''brew-9''\<rparr>)] \<and>
   get_teapot (update_teapot store_1 (teapot_1\<lparr>teapot_id := ''pot-9''\<rparr>)) ''pot-1''
     = Some teapot_1"
proof -
  have t: "get_teapot store_1 (teapot_id (teapot_1\<lparr>teapot_id := ''pot-9''\<rparr>)) = None"
    by (simp add: get_teapot_def store_1_def)
  have e: "get_tea store_1 (tea_id (tea_1\<lparr>tea_id := ''tea-9''\<rparr>)) = None"
    by (simp add: get_tea_def store_1_def)
  have b: "get_brew store_1 (brew_id (brew_a\<lparr>brew_id := ''brew-9''\<rparr>)) = None"
    by (simp add: get_brew_def store_1_def)
  have o: "get_teapot store_1 ''pot-1'' = Some teapot_1"
    by (simp add: get_teapot_def store_1_def)
  have c: "teapots store_1 = [(''pot-1'', teapot_1)]" "teas store_1 = [(''tea-1'', tea_1)]"
    "brews store_1 = [(''brew-a'', brew_a), (''brew-b'', brew_b)]"
    by (simp_all add: store_1_def)
  from update_is_upsert [of store_1 "teapot_1\<lparr>teapot_id := ''pot-9''\<rparr>"
      "tea_1\<lparr>tea_id := ''tea-9''\<rparr>" "brew_a\<lparr>brew_id := ''brew-9''\<rparr>"] t e b o c
  show ?thesis by simp
qed


section \<open>Creating a brew\<close>

text \<open>
  Claim C8. For every request body that passes validation: when no teapot has the
  referenced id, \<^verbatim>\<open>create_brew\<close> answers 400 with code \<^verbatim>\<open>NOT_FOUND\<close> and the message
  \<^verbatim>\<open>Teapot not found\<close>; when the teapot exists and no tea has the referenced id, it answers
  400 with \<^verbatim>\<open>NOT_FOUND\<close> and \<^verbatim>\<open>Tea not found\<close>. In both cases the store is unchanged, so
  no brew is created.
\<close>

theorem create_brew_missing_reference:
  assumes "CreateBrewRequest_valid data"
  shows "(get_teapot s (cbr_teapot_id data) = None \<longrightarrow>
            route_create_brew s data uuid now
              = (ErrorJson ''NOT_FOUND'' ''Teapot not found'' 400, s)) \<and>
         (get_teapot s (cbr_teapot_id data) \<noteq> None \<and> get_tea s (cbr_tea_id data) = None \<longrightarrow>
            route_create_brew s data uuid now
              = (ErrorJson ''NOT_FOUND'' ''Tea not found'' 400, s))"
  using assms by (auto simp: route_create_brew_def)

text \<open>Both cases on \<open>store_1\<close>, which holds \<open>pot-1\<close> and \<open>tea-1\<close> only.\<close>

theorem create_brew_missing_reference_witness:
  "CreateBrewRequest_valid (brew_request_1\<lparr>cbr_teapot_id := ''pot-x''\<rparr>) \<and>
   get_teapot store_1 (cbr_teapot_id (brew_request_1\<lparr>cbr_teapot_id := ''pot-x''\<rparr>)) = None \<and>
   route_create_brew store_1 (brew_request_1\<lparr>cbr_teapot_id := ''pot-x''\<rparr>) ''brew-c'' 20
     = (ErrorJson ''NOT_FOUND'' ''Teapot not found'' 400, store_1) \<and>
   CreateBrewRequest_valid (brew_request_1\<lparr>cbr_tea_id := ''tea-x''\<rparr>) \<and>
   get_teapot store_1 (cbr_teapot_id (brew_request_1\<lparr>cbr_tea_id := ''tea-x''\<rparr>)) \<noteq> None \<and>
   get_tea store_1 (cbr_tea_id (brew_request_1\<lparr>cbr_tea_id := ''tea-x''\<rparr>)) = None \<and>
   route_create_brew store_1 (brew_request_1\<lparr>cbr_tea_id := ''tea-x''\<rparr>) ''brew-c'' 20
     = (ErrorJson ''NOT_FOUND'' ''Tea not found'' 400, store_1)"
proof -
  let ?p = "brew_request_1\<lparr>cbr_teapot_id := ''pot-x''\<rparr>"
  let ?t = "brew_request_1\<lparr>cbr_tea_id := ''tea-x''\<rparr>"
  have vp: "CreateBrewRequest_valid ?p" and vt: "CreateBrewRequest_valid ?t"
    by (simp_all add: CreateBrewRequest_valid_def brew_request_1_def opt_all_def)
  have p: "get_teapot store_1 (cbr_teapot_id ?p) = None"
    by (simp add: get_teapot_def store_1_def)
  have t1: "get_teapot store_1 (cbr_teapot_id ?t) \<noteq> None"
    by (simp add: get_teapot_def store_1_def brew_request_1_def)
  have t2: "get_tea store_1 (cbr_tea_id ?t) = None"
    by (simp add: get_tea_def store_1_def)
  from create_brew_missing_reference [OF vp, of store_1 "''brew-c''" 20] p
  have a: "route_create_brew store_1 ?p ''brew-c'' 20
      = (ErrorJson ''NOT_FOUND'' ''Teapot not found'' 400, store_1)"
    by blast
  from create_brew_missing_reference [OF vt, of store_1 "''brew-c''" 20] t1 t2
  have b: "route_create_brew store_1 ?t ''brew-c'' 20
      = (ErrorJson ''NOT_FOUND'' ''Tea not found'' 400, store_1)"
    by blast
  from vp vt p t1 t2 a b show ?thesis by blast
qed

text \<open>
  Claim C4. For every valid request whose teapot and tea exist: a brew that the handler
  creates has the tea's steep temperature as its water temperature when the request gives
  none, and has the request's water temperature, which lies in 60 to 100, when it gives
  one; the brew is stored under its id. The handler does create the brew whenever the
  temperature it takes from the tea lies in 60 to 100, as the \<^verbatim>\<open>Tea\<close> model requires.
\<close>

theorem create_brew_water_temp:
  assumes "CreateBrewRequest_valid data"
    and "get_teapot s (cbr_teapot_id data) = Some teapot"
    and "get_tea s (cbr_tea_id data) = Some tea"
  shows "(\<forall>brew s'. route_create_brew s data uuid now = (Json brew 201, s') \<longrightarrow>
            (cbr_water_temp_celsius data = None \<longrightarrow>
               brew_water_temp_celsius brew = tea_steep_temp_celsius tea) \<and>
            (\<forall>w. cbr_water_temp_celsius data = Some w \<longrightarrow>
               60 \<le> w \<and> w \<le> 100 \<and> brew_water_temp_celsius brew = w) \<and>
            get_brew s' (brew_id brew) = Some brew) \<and>
         ((cbr_water_temp_celsius data = None \<longrightarrow>
             60 \<le> tea_steep_temp_celsius tea \<and> tea_steep_temp_celsius tea \<le> 100) \<longrightarrow>
          (\<exists>brew. route_create_brew s data uuid now = (Json brew 201, create_brew s brew)))"
proof (cases "cbr_water_temp_celsius data")
  case None
  with assms show ?thesis
    by (auto simp: route_create_brew_def Let_def create_brew_def get_brew_def
          dict_get_set_same Brew_valid_def CreateBrewRequest_valid_def opt_all_def
          split: if_splits)
next
  case (Some w)
  with assms have "60 \<le> w" "w \<le> 100" "w \<noteq> 0"
    by (auto simp: CreateBrewRequest_valid_def opt_all_def)
  with Some assms show ?thesis
    by (auto simp: route_create_brew_def Let_def create_brew_def get_brew_def
          dict_get_set_same Brew_valid_def CreateBrewRequest_valid_def opt_all_def
          split: if_splits)
qed

text \<open>
  The example of the specification: \<open>tea_1\<close> steeps at 80, so a request without a water
  temperature gives a brew at 80, and a request with 75 gives a brew at 75.
\<close>

theorem create_brew_water_temp_witness:
  "CreateBrewRequest_valid brew_request_1 \<and>
   get_teapot store_1 (cbr_teapot_id brew_request_1) = Some teapot_1 \<and>
   get_tea store_1 (cbr_tea_id brew_request_1) = Some tea_1 \<and>
   cbr_water_temp_celsius brew_request_1 = None \<and>
   (\<exists>brew. route_create_brew store_1 brew_request_1 ''brew-c'' 20
             = (Json brew 201, create_brew store_1 brew) \<and>
           brew_water_temp_celsius brew = 80) \<and>
   CreateBrewRequest_valid (brew_request_1\<lparr>cbr_water_temp_celsius := Some 75\<rparr>) \<and>
   (\<exists>brew. route_create_brew store_1 (brew_request_1\<lparr>cbr_water_temp_celsius := Some 75\<rparr>)
              ''brew-c'' 20 = (Json brew 201, create_brew store_1 brew) \<and>
           brew_water_temp_celsius brew = 75)"
proof -
  let ?r = "brew_request_1\<lparr>cbr_water_temp_celsius := Some 75\<rparr>"
  have v1: "CreateBrewRequest_valid brew_request_1" and v2: "CreateBrewRequest_valid ?r"
    by (simp_all add: CreateBrewRequest_valid_def brew_request_1_def opt_all_def)
  have p1: "get_teapot store_1 (cbr_teapot_id brew_request_1) = Some teapot_1"
    and p2: "get_teapot store_1 (cbr_teapot_id ?r) = Some teapot_1"
    by (simp_all add: get_teapot_def store_1_def brew_request_1_def)
  have t1: "get_tea store_1 (cbr_tea_id brew_request_1) = Some tea_1"
    and t2: "get_tea store_1 (cbr_tea_id ?r) = Some tea_1"
    by (simp_all add: get_tea_def store_1_def brew_request_1_def)
  have n: "cbr_water_temp_celsius brew_request_1 = None"
    by (simp add: brew_request_1_def)
  have temp: "tea_steep_temp_celsius tea_1 = 80"
    by (simp add: tea_1_def)
  note a = create_brew_water_temp [OF v1 p1 t1, of "''brew-c''" 20]
  note b = create_brew_water_temp [OF v2 p2 t2, of "''brew-c''" 20]
  from a n temp obtain b1 where
    r1: "route_create_brew store_1 brew_request_1 ''brew-c'' 20
           = (Json b1 201, create_brew store_1 b1)"
    by auto
  from a r1 n temp have w1: "brew_water_temp_celsius b1 = 80"
    by simp
  from b obtain b2 where
    r2: "route_create_brew store_1 ?r ''brew-c'' 20 = (Json b2 201, create_brew store_1 b2)"
    by auto
  from b r2 have w2: "brew_water_temp_celsius b2 = 75"
    by simp
  from r1 w1 r2 w2 v1 v2 p1 t1 n show ?thesis by blast
qed


section \<open>Listing\<close>

lemma py_slice_window:
  "0 \<le> start \<Longrightarrow> 0 \<le> n \<Longrightarrow> py_slice xs start (start + n) = take (nat n) (drop (nat start) xs)"
  by (auto simp: py_slice_def Let_def min_def nat_diff_distrib nat_add_distrib)

lemma paginate_window:
  assumes "1 \<le> page" "1 \<le> limit"
  shows "paginate xs page limit
    = (take (nat limit) (drop (nat ((page - 1) * limit)) xs), int (length xs))"
proof -
  from assms have "0 \<le> (page - 1) * limit" "0 \<le> limit" by simp_all
  then show ?thesis
    by (simp add: paginate_def Let_def py_slice_window)
qed

lemma paginate_total: "snd (paginate xs p l) = int (length xs)"
  by (simp add: paginate_def Let_def)

lemma dict_values_set_absent:
  "dict_get d k = None \<Longrightarrow> dict_values (dict_set d k v) = dict_values d @ [v]"
  by (simp add: dict_set_absent dict_values_def)

lemma filter_teapots_page [simp]:
  "filter_teapots (q\<lparr>teapotq_page := p, teapotq_limit := l\<rparr>) xs = filter_teapots q xs"
  by (simp add: filter_teapots_def)

lemma filter_teas_page [simp]:
  "filter_teas (q\<lparr>teaq_page := p, teaq_limit := l\<rparr>) xs = filter_teas q xs"
  by (simp add: filter_teas_def)

lemma filter_brews_page [simp]:
  "filter_brews (q\<lparr>brewq_page := p, brewq_limit := l\<rparr>) xs = filter_brews q xs"
  by (simp add: filter_brews_def)

lemma filter_teapots_matches: "filter_teapots q xs = filter (spec_teapot_matches q) xs"
  by (cases "teapotq_material q"; cases "teapotq_style q")
     (auto simp: filter_teapots_def spec_teapot_matches_def truthy_enum_def opt_all_def
        cong: filter_cong)

lemma filter_teas_matches: "filter_teas q xs = filter (spec_tea_matches q) xs"
  by (cases "teaq_type q"; cases "teaq_caffeine_level q")
     (auto simp: filter_teas_def spec_tea_matches_def truthy_enum_def opt_all_def
        cong: filter_cong)

lemma filter_brews_matches: "filter_brews q xs = filter (amended_brew_matches q) xs"
  by (cases "brewq_status q"; cases "brewq_teapot_id q"; cases "brewq_tea_id q")
     (auto simp: filter_brews_def amended_brew_matches_def truthy_enum_def truthy_str_def
        opt_all_def Let_def cong: filter_cong)

lemma spec_teapot_matches_page [simp]:
  "spec_teapot_matches (q\<lparr>teapotq_page := p, teapotq_limit := l\<rparr>) = spec_teapot_matches q"
  by (simp add: spec_teapot_matches_def fun_eq_iff)

lemma spec_tea_matches_page [simp]:
  "spec_tea_matches (q\<lparr>teaq_page := p, teaq_limit := l\<rparr>) = spec_tea_matches q"
  by (simp add: spec_tea_matches_def fun_eq_iff)

lemma amended_brew_matches_page [simp]:
  "amended_brew_matches (q\<lparr>brewq_page := p, brewq_limit := l\<rparr>) = amended_brew_matches q"
  by (simp add: amended_brew_matches_def fun_eq_iff)

lemma store_raced_steeps:
  "steeps store_raced =
     [(''s1'', steep_a1), (''s2'', steep_b1), (''s3'', steep_a2),
      (''s5'', build_steep ''brew-a'' steep_request_1 ''s5'' 21 3),
      (''s6'', build_steep ''brew-a'' steep_request_1 ''s6'' 22 4),
      (''s4'', build_steep ''brew-a'' steep_request_1 ''s4'' 20 3)]"
  by (simp add: store_raced_def route_create_steep_def Let_def
        steep_call_1_def steep_call_2_def steep_request_1_def store_1_def
        get_steep_def get_brew_def get_next_steep_number_def create_steep_def
        CreateSteepRequest_valid_def Steep_valid_def build_steep_def opt_all_def
        dict_values_def steep_a1_def steep_a2_def steep_b1_def)

text \<open>
  Claim C6, as amended. For a page number \<open>p\<close> of at least 1 and a limit \<open>l\<close> of at least
  1, each list operation returns the items \<open>(p - 1) * l\<close> up to \<open>(p - 1) * l + l\<close> of the
  filtered collection, together with the number of matching entities before pagination.
  For teapots, teas, brews and the brews of a teapot the filtered collection is the
  matching values of the dictionary in insertion order, where an entity created under a
  new id comes last. For the steeps of a brew it is the steeps of that brew sorted by
  steep number, steeps of equal number in insertion order, and a page is ascending in
  steep number. A page that starts at or after the end is the empty list.
\<close>

theorem list_pagination_window:
  assumes "1 \<le> p" and "1 \<le> l"
  shows "list_teapots s (tq\<lparr>teapotq_page := p, teapotq_limit := l\<rparr>)
           = (take (nat l) (drop (nat ((p - 1) * l)) (filter (spec_teapot_matches tq) (dict_values (teapots s)))),
              int (length (filter (spec_teapot_matches tq) (dict_values (teapots s))))) \<and>
         list_teas s (eq\<lparr>teaq_page := p, teaq_limit := l\<rparr>)
           = (take (nat l) (drop (nat ((p - 1) * l)) (filter (spec_tea_matches eq) (dict_values (teas s)))),
              int (length (filter (spec_tea_matches eq) (dict_values (teas s))))) \<and>
         list_brews s (bq\<lparr>brewq_page := p, brewq_limit := l\<rparr>)
           = (take (nat l) (drop (nat ((p - 1) * l)) (filter (amended_brew_matches bq) (dict_values (brews s)))),
              int (length (filter (amended_brew_matches bq) (dict_values (brews s))))) \<and>
         list_brews_by_teapot s tid \<lparr>pagq_page = p, pagq_limit = l\<rparr>
           = (take (nat l) (drop (nat ((p - 1) * l)) (filter (\<lambda>b. brew_teapot_id b = tid) (dict_values (brews s)))),
              int (length (filter (\<lambda>b. brew_teapot_id b = tid) (dict_values (brews s))))) \<and>
         list_steeps_by_brew s b \<lparr>pagq_page = p, pagq_limit = l\<rparr>
           = (take (nat l) (drop (nat ((p - 1) * l)) (sort_key steep_number (filter (\<lambda>st. steep_brew_id st = b) (dict_values (steeps s))))),
              int (length (filter (\<lambda>st. steep_brew_id st = b) (dict_values (steeps s))))) \<and>
         sorted (map steep_number (fst (list_steeps_by_brew s b \<lparr>pagq_page = p, pagq_limit = l\<rparr>))) \<and>
         (int (length (filter (spec_teapot_matches tq) (dict_values (teapots s)))) \<le> (p - 1) * l \<longrightarrow>
            fst (list_teapots s (tq\<lparr>teapotq_page := p, teapotq_limit := l\<rparr>)) = []) \<and>
         (int (length (filter (spec_tea_matches eq) (dict_values (teas s)))) \<le> (p - 1) * l \<longrightarrow>
            fst (list_teas s (eq\<lparr>teaq_page := p, teaq_limit := l\<rparr>)) = []) \<and>
         (int (length (filter (amended_brew_matches bq) (dict_values (brews s)))) \<le> (p - 1) * l \<longrightarrow>
            fst (list_brews s (bq\<lparr>brewq_page := p, brewq_limit := l\<rparr>)) = []) \<and>
         (int (length (filter (\<lambda>b. brew_teapot_id b = tid) (dict_values (brews s)))) \<le> (p - 1) * l \<longrightarrow>
            fst (list_brews_by_teapot s tid \<lparr>pagq_page = p, pagq_limit = l\<rparr>) = []) \<and>
         (int (length (filter (\<lambda>st. steep_brew_id st = b) (dict_values (steeps s)))) \<le> (p - 1) * l \<longrightarrow>
            fst (list_steeps_by_brew s b \<lparr>pagq_page = p, pagq_limit = l\<rparr>) = []) \<and>
         (get_teapot s (teapot_id teapot) = None \<longrightarrow>
            dict_values (teapots (create_teapot s teapot)) = dict_values (teapots s) @ [teapot]) \<and>
         (get_tea s (tea_id tea) = None \<longrightarrow>
            dict_values (teas (create_tea s tea)) = dict_values (teas s) @ [tea]) \<and>
         (get_brew s (brew_id brew) = None \<longrightarrow>
            dict_values (brews (create_brew s brew)) = dict_values (brews s) @ [brew])"
proof -
  note pw = paginate_window [OF assms]
  have a: "list_teapots s (tq\<lparr>teapotq_page := p, teapotq_limit := l\<rparr>)
      = (take (nat l) (drop (nat ((p - 1) * l)) (filter (spec_teapot_matches tq) (dict_values (teapots s)))),
         int (length (filter (spec_teapot_matches tq) (dict_values (teapots s)))))"
    by (simp add: list_teapots_def filter_teapots_matches pw)
  have b: "list_teas s (eq\<lparr>teaq_page := p, teaq_limit := l\<rparr>)
      = (take (nat l) (drop (nat ((p - 1) * l)) (filter (spec_tea_matches eq) (dict_values (teas s)))),
         int (length (filter (spec_tea_matches eq) (dict_values (teas s)))))"
    by (simp add: list_teas_def filter_teas_matches pw)
  have c: "list_brews s (bq\<lparr>brewq_page := p, brewq_limit := l\<rparr>)
      = (take (nat l) (drop (nat ((p - 1) * l)) (filter (amended_brew_matches bq) (dict_values (brews s)))),
         int (length (filter (amended_brew_matches bq) (dict_values (brews s)))))"
    by (simp add: list_brews_def filter_brews_matches pw)
  have d: "list_brews_by_teapot s tid \<lparr>pagq_page = p, pagq_limit = l\<rparr>
      = (take (nat l) (drop (nat ((p - 1) * l)) (filter (\<lambda>b. brew_teapot_id b = tid) (dict_values (brews s)))),
         int (length (filter (\<lambda>b. brew_teapot_id b = tid) (dict_values (brews s)))))"
    by (simp add: list_brews_by_teapot_def pw)
  have e: "list_steeps_by_brew s b \<lparr>pagq_page = p, pagq_limit = l\<rparr>
      = (take (nat l) (drop (nat ((p - 1) * l)) (sort_key steep_number (filter (\<lambda>st. steep_brew_id st = b) (dict_values (steeps s))))),
         int (length (filter (\<lambda>st. steep_brew_id st = b) (dict_values (steeps s)))))"
    by (simp add: list_steeps_by_brew_def Let_def pw)
  have srt: "sorted (map steep_number (take (nat l) (drop (nat ((p - 1) * l)) (sort_key steep_number (filter (\<lambda>st. steep_brew_id st = b) (dict_values (steeps s)))))))"
  proof -
    have "sorted (map steep_number (sort_key steep_number (filter (\<lambda>st. steep_brew_id st = b) (dict_values (steeps s)))))"
      by (rule sorted_sort_key)
    then have "sorted (take (nat l) (drop (nat ((p - 1) * l)) (map steep_number (sort_key steep_number (filter (\<lambda>st. steep_brew_id st = b) (dict_values (steeps s)))))))"
      by (intro sorted_wrt_take sorted_wrt_drop)
    then show ?thesis
      by (simp add: take_map drop_map)
  qed
  have i1: "(get_teapot s (teapot_id teapot) = None \<longrightarrow>
      dict_values (teapots (create_teapot s teapot)) = dict_values (teapots s) @ [teapot])"
    by (simp add: get_teapot_def create_teapot_def dict_values_set_absent)
  have i2: "(get_tea s (tea_id tea) = None \<longrightarrow>
      dict_values (teas (create_tea s tea)) = dict_values (teas s) @ [tea])"
    by (simp add: get_tea_def create_tea_def dict_values_set_absent)
  have i3: "(get_brew s (brew_id brew) = None \<longrightarrow>
      dict_values (brews (create_brew s brew)) = dict_values (brews s) @ [brew])"
    by (simp add: get_brew_def create_brew_def dict_values_set_absent)
  show ?thesis
    unfolding a b c d e using srt i1 i2 i3 by simp
qed

text \<open>
  \<open>store_1\<close> holds two brews: page 2 of size 1 is the second brew, page 3 is empty, and a
  third brew is listed after the two. Page 2 of size 1 of the steeps of \<open>brew-a\<close> in
  \<open>store_raced\<close> is its steep number 2, out of five.
\<close>

theorem list_pagination_window_witness:
  "(1::int) \<le> 2 \<and> (1::int) \<le> 1 \<and>
   list_brews store_1 (brew_query_all\<lparr>brewq_page := 2, brewq_limit := 1\<rparr>) = ([brew_b], 2) \<and>
   list_steeps_by_brew store_raced ''brew-a'' \<lparr>pagq_page = 2, pagq_limit = 1\<rparr> = ([steep_a2], 5) \<and>
   (1::int) \<le> 3 \<and>
   int (length (filter (amended_brew_matches brew_query_all) (dict_values (brews store_1))))
     \<le> (3 - 1) * 1 \<and>
   fst (list_brews store_1 (brew_query_all\<lparr>brewq_page := 3, brewq_limit := 1\<rparr>)) = [] \<and>
   get_brew store_1 (brew_id (brew_a\<lparr>brew_id := ''brew-9''\<rparr>)) = None \<and>
   dict_values (brews (create_brew store_1 (brew_a\<lparr>brew_id := ''brew-9''\<rparr>)))
     = [brew_a, brew_b, brew_a\<lparr>brew_id := ''brew-9''\<rparr>]"
proof -
  have h1: "(1::int) \<le> 1" and h2: "(1::int) \<le> 2" and h3: "(1::int) \<le> 3"
    by simp_all
  have vals: "dict_values (brews store_1) = [brew_a, brew_b]"
    by (simp add: store_1_def dict_values_def)
  have all: "filter (amended_brew_matches brew_query_all) xs = xs" for xs
    by (simp add: amended_brew_matches_def brew_query_all_def opt_all_def)
  have svals: "sort_key steep_number
      (filter (\<lambda>st. steep_brew_id st = ''brew-a'') (dict_values (steeps store_raced)))
      = [steep_a1, steep_a2,
         build_steep ''brew-a'' steep_request_1 ''s5'' 21 3,
         build_steep ''brew-a'' steep_request_1 ''s4'' 20 3,
         build_steep ''brew-a'' steep_request_1 ''s6'' 22 4]"
    by (simp add: store_raced_steeps dict_values_def build_steep_def steep_request_1_def
          steep_a1_def steep_a2_def steep_b1_def)
  have scount: "length (filter (\<lambda>st. steep_brew_id st = ''brew-a'')
      (dict_values (steeps store_raced))) = 5"
    by (simp add: store_raced_steeps dict_values_def build_steep_def
          steep_a1_def steep_a2_def steep_b1_def)
  have fresh: "get_brew store_1 (brew_id (brew_a\<lparr>brew_id := ''brew-9''\<rparr>)) = None"
    by (simp add: get_brew_def store_1_def)
  have far: "int (length (filter (amended_brew_matches brew_query_all)
      (dict_values (brews store_1)))) \<le> (3 - 1) * 1"
    by (simp add: all vals)
  note w2 = list_pagination_window [OF h2 h1, where s = store_1 and bq = brew_query_all]
  note w2s = list_pagination_window [OF h2 h1, where s = store_raced and b = "''brew-a''"]
  note w3 = list_pagination_window [OF h3 h1, where s = store_1 and bq = brew_query_all
      and brew = "brew_a\<lparr>brew_id := ''brew-9''\<rparr>"]
  from w2 [THEN conjunct2, THEN conjunct2, THEN conjunct1, unfolded all vals]
  have a: "list_brews store_1 (brew_query_all\<lparr>brewq_page := 2, brewq_limit := 1\<rparr>)
      = ([brew_b], 2)"
    by simp
  from w2s [THEN conjunct2, THEN conjunct2, THEN conjunct2, THEN conjunct2, THEN conjunct1,
      unfolded svals scount]
  have s: "list_steeps_by_brew store_raced ''brew-a'' \<lparr>pagq_page = 2, pagq_limit = 1\<rparr>
      = ([steep_a2], 5)"
    by simp
  from w3 far
  have b: "fst (list_brews store_1 (brew_query_all\<lparr>brewq_page := 3, brewq_limit := 1\<rparr>)) = []"
    by blast
  from w3 fresh
  have c: "dict_values (brews (create_brew store_1 (brew_a\<lparr>brew_id := ''brew-9''\<rparr>)))
     = [brew_a, brew_b, brew_a\<lparr>brew_id := ''brew-9''\<rparr>]"
    by (simp add: vals)
  from h1 h2 h3 a s far b fresh c show ?thesis by blast
qed

text \<open>
  The claim as stated, with insertion order for every list operation, fails for
  \<^verbatim>\<open>list_steeps_by_brew\<close>. In \<open>store_raced\<close> the steeps of \<open>brew-a\<close> were inserted in the
  order \<open>s1\<close>, \<open>s3\<close>, \<open>s5\<close>, \<open>s6\<close>, \<open>s4\<close>, with the numbers 1, 2, 3, 4, 3; the
  listing puts \<open>s4\<close> before \<open>s6\<close>, so its first page is not the window of the insertion
  order.
\<close>

theorem list_steeps_sorted_counterexample:
  "dict_values (steeps store_raced) =
     [steep_a1, steep_b1, steep_a2,
      build_steep ''brew-a'' steep_request_1 ''s5'' 21 3,
      build_steep ''brew-a'' steep_request_1 ''s6'' 22 4,
      build_steep ''brew-a'' steep_request_1 ''s4'' 20 3] \<and>
   list_steeps_by_brew store_raced ''brew-a'' \<lparr>pagq_page = 1, pagq_limit = 20\<rparr> =
     ([steep_a1, steep_a2,
       build_steep ''brew-a'' steep_request_1 ''s5'' 21 3,
       build_steep ''brew-a'' steep_request_1 ''s4'' 20 3,
       build_steep ''brew-a'' steep_request_1 ''s6'' 22 4], 5) \<and>
   take (nat 20) (drop (nat ((1 - 1) * 20))
     [steep_a1, steep_a2,
      build_steep ''brew-a'' steep_request_1 ''s5'' 21 3,
      build_steep ''brew-a'' steep_request_1 ''s6'' 22 4,
      build_steep ''brew-a'' steep_request_1 ''s4'' 20 3])
   \<noteq> fst (list_steeps_by_brew store_raced ''brew-a'' \<lparr>pagq_page = 1, pagq_limit = 20\<rparr>)"
  by (simp add: store_raced_steeps list_steeps_by_brew_def paginate_def py_slice_def
        dict_values_def build_steep_def steep_request_1_def
        steep_a1_def steep_a2_def steep_b1_def)

text \<open>
  Claim C7, as amended. The filters of teapots and teas keep exactly the entities that
  equal every supplied field, and an absent field imposes no constraint. The filter of
  brews does the same for the status; for the teapot id and the tea id, a field that is
  absent or is the empty string imposes no constraint, and any other value must be
  equalled. The total counts the entities kept. When neither id is the empty string the
  brew filter is the one the specification describes.
\<close>

theorem list_filter_semantics:
  "filter_teapots tq ts = filter (spec_teapot_matches tq) ts \<and>
   filter_teas eq es = filter (spec_tea_matches eq) es \<and>
   filter_brews bq bs = filter (amended_brew_matches bq) bs \<and>
   snd (list_teapots s tq)
     = int (length (filter (spec_teapot_matches tq) (dict_values (teapots s)))) \<and>
   snd (list_teas s eq) = int (length (filter (spec_tea_matches eq) (dict_values (teas s)))) \<and>
   snd (list_brews s bq)
     = int (length (filter (amended_brew_matches bq) (dict_values (brews s)))) \<and>
   (brewq_teapot_id bq \<noteq> Some [] \<and> brewq_tea_id bq \<noteq> Some [] \<longrightarrow>
      amended_brew_matches bq b = spec_brew_matches bq b)"
proof -
  have "amended_brew_matches bq b = spec_brew_matches bq b"
    if "brewq_teapot_id bq \<noteq> Some []" "brewq_tea_id bq \<noteq> Some []"
    using that
    by (cases "brewq_teapot_id bq"; cases "brewq_tea_id bq")
       (auto simp: amended_brew_matches_def spec_brew_matches_def opt_all_def)
  then show ?thesis
    by (simp add: filter_teapots_matches filter_teas_matches filter_brews_matches
          list_teapots_def list_teas_def list_brews_def paginate_total)
qed

text \<open>Filtering the brews of \<open>store_1\<close> by status keeps the one steeping brew.\<close>

theorem list_filter_semantics_witness:
  "brewq_teapot_id (brew_query_all\<lparr>brewq_status := Some STEEPING\<rparr>) \<noteq> Some [] \<and>
   brewq_tea_id (brew_query_all\<lparr>brewq_status := Some STEEPING\<rparr>) \<noteq> Some [] \<and>
   spec_brew_matches (brew_query_all\<lparr>brewq_status := Some STEEPING\<rparr>) brew_b \<and>
   amended_brew_matches (brew_query_all\<lparr>brewq_status := Some STEEPING\<rparr>) brew_b \<and>
   filter_brews (brew_query_all\<lparr>brewq_status := Some STEEPING\<rparr>) [brew_a, brew_b] = [brew_b] \<and>
   snd (list_brews store_1 (brew_query_all\<lparr>brewq_status := Some STEEPING\<rparr>)) = 1"
proof -
  let ?q = "brew_query_all\<lparr>brewq_status := Some STEEPING\<rparr>"
  have h: "brewq_teapot_id ?q \<noteq> Some []" "brewq_tea_id ?q \<noteq> Some []"
    by (simp_all add: brew_query_all_def)
  have m: "spec_brew_matches ?q brew_b" "\<not> spec_brew_matches ?q brew_a"
    by (simp_all add: spec_brew_matches_def brew_query_all_def brew_a_def brew_b_def opt_all_def)
  have vals: "dict_values (brews store_1) = [brew_a, brew_b]"
    by (simp add: store_1_def dict_values_def)
  note w = list_filter_semantics [where bq = ?q and s = store_1]
  from w [where b = brew_b] h m have a: "amended_brew_matches ?q brew_b"
    by blast
  from w [where b = brew_a] h m have a': "\<not> amended_brew_matches ?q brew_a"
    by blast
  from w [where bs = "[brew_a, brew_b]"] a a'
  have f: "filter_brews ?q [brew_a, brew_b] = [brew_b]"
    by simp
  from w a a' have t: "snd (list_brews store_1 ?q) = 1"
    by (simp add: vals)
  from h m a f t show ?thesis by blast
qed

text \<open>
  The claim as stated fails for \<^verbatim>\<open>GET /brews?teapotId=\<close>: the teapot id is supplied as the
  empty string, no brew of \<open>store_1\<close> has that teapot id, and both brews are returned and
  counted.
\<close>

theorem list_brews_empty_filter_counterexample:
  "list_brews store_1 (brew_query_all\<lparr>brewq_teapot_id := Some []\<rparr>) = ([brew_a, brew_b], 2) \<and>
   \<not> spec_brew_matches (brew_query_all\<lparr>brewq_teapot_id := Some []\<rparr>) brew_a \<and>
   \<not> spec_brew_matches (brew_query_all\<lparr>brewq_teapot_id := Some []\<rparr>) brew_b"
  by (simp add: list_brews_def filter_brews_def paginate_def py_slice_def brew_query_all_def
        store_1_def dict_values_def truthy_enum_def truthy_str_def spec_brew_matches_def
        opt_all_def brew_a_def brew_b_def)


section \<open>PATCH\<close>

lemma patch_teapot_result:
  assumes "get_teapot s i = Some old"
    and "route_patch_teapot s i data now = (Json new 200, s')"
  shows "teapot_id new = teapot_id old \<and>
         teapot_created_at new = teapot_created_at old \<and>
         teapot_updated_at new = now \<and>
         (case ptp_name data of None \<Rightarrow> teapot_name new = teapot_name old
                              | Some v \<Rightarrow> v = Some (teapot_name new)) \<and>
         (case ptp_material data of None \<Rightarrow> teapot_material new = teapot_material old
                                  | Some v \<Rightarrow> v = Some (teapot_material new)) \<and>
         (case ptp_capacity_ml data of None \<Rightarrow> teapot_capacity_ml new = teapot_capacity_ml old
                                     | Some v \<Rightarrow> v = Some (teapot_capacity_ml new)) \<and>
         (case ptp_style data of None \<Rightarrow> teapot_style new = teapot_style old
                               | Some v \<Rightarrow> v = Some (teapot_style new)) \<and>
         (case ptp_description data of None \<Rightarrow> teapot_description new = teapot_description old
                                     | Some v \<Rightarrow> teapot_description new = v) \<and>
         s' = update_teapot s new \<and>
         get_teapot s' (teapot_id old) = Some new"
proof -
  let ?d = "\<lparr>td_id = teapot_id old,
             td_name = patched (Some (teapot_name old)) (ptp_name data),
             td_material = patched (Some (teapot_material old)) (ptp_material data),
             td_capacity_ml = patched (Some (teapot_capacity_ml old)) (ptp_capacity_ml data),
             td_style = patched (Some (teapot_style old)) (ptp_style data),
             td_description = patched (teapot_description old) (ptp_description data),
             td_created_at = teapot_created_at old,
             td_updated_at = now\<rparr>"
  from assms have v: "Teapot_model_validate ?d = Some new" and s': "s' = update_teapot s new"
    by (auto simp: route_patch_teapot_def Let_def split: if_splits option.splits)
  from v obtain n m c st where
    f: "patched (Some (teapot_name old)) (ptp_name data) = Some n"
       "patched (Some (teapot_material old)) (ptp_material data) = Some m"
       "patched (Some (teapot_capacity_ml old)) (ptp_capacity_ml data) = Some c"
       "patched (Some (teapot_style old)) (ptp_style data) = Some st"
    and new: "new = \<lparr>teapot_id = teapot_id old, teapot_name = n, teapot_material = m,
                teapot_capacity_ml = c, teapot_style = st,
                teapot_description = patched (teapot_description old) (ptp_description data),
                teapot_created_at = teapot_created_at old, teapot_updated_at = now\<rparr>"
    by (auto simp: Teapot_model_validate_def Let_def split: option.splits if_splits)
  have stored: "get_teapot s' (teapot_id old) = Some new"
    by (simp add: s' new update_teapot_def get_teapot_def dict_get_set_same)
  from f new s' stored show ?thesis
    by (auto simp: patched_def split: option.splits)
qed

lemma patch_tea_result:
  assumes "get_tea s i = Some old"
    and "route_patch_tea s i data now = (Json new 200, s')"
  shows "tea_id new = tea_id old \<and>
         tea_created_at new = tea_created_at old \<and>
         tea_updated_at new = now \<and>
         (case pta_name data of None \<Rightarrow> tea_name new = tea_name old
                              | Some v \<Rightarrow> v = Some (tea_name new)) \<and>
         (case pta_type data of None \<Rightarrow> tea_type new = tea_type old
                              | Some v \<Rightarrow> v = Some (tea_type new)) \<and>
         (case pta_origin data of None \<Rightarrow> tea_origin new = tea_origin old
                                | Some v \<Rightarrow> tea_origin new = v) \<and>
         (case pta_caffeine_level data of
            None \<Rightarrow> tea_caffeine_level new = tea_caffeine_level old
          | Some v \<Rightarrow> v = Some (tea_caffeine_level new)) \<and>
         (case pta_steep_temp_celsius data of
            None \<Rightarrow> tea_steep_temp_celsius new = tea_steep_temp_celsius old
          | Some v \<Rightarrow> v = Some (tea_steep_temp_celsius new)) \<and>
         (case pta_steep_time_seconds data of
            None \<Rightarrow> tea_steep_time_seconds new = tea_steep_time_seconds old
          | Some v \<Rightarrow> v = Some (tea_steep_time_seconds new)) \<and>
         (case pta_description data of None \<Rightarrow> tea_description new = tea_description old
                                     | Some v \<Rightarrow> tea_description new = v) \<and>
         s' = update_tea s new \<and>
         get_tea s' (tea_id old) = Some new"
proof -
  let ?d = "\<lparr>ted_id = tea_id old,
             ted_name = patched (Some (tea_name old)) (pta_name data),
             ted_type = patched (Some (tea_type old)) (pta_type data),
             ted_origin = patched (tea_origin old) (pta_origin data),
             ted_caffeine_level =
               patched (Some (tea_caffeine_level old)) (pta_caffeine_level data),
             ted_steep_temp_celsius =
               patched (Some (tea_steep_temp_celsius old)) (pta_steep_temp_celsius data),
             ted_steep_time_seconds =
               patched (Some (tea_steep_time_seconds old)) (pta_steep_time_seconds data),
             ted_description = patched (tea_description old) (pta_description data),
             ted_created_at = tea_created_at old,
             ted_updated_at = now\<rparr>"
  from assms have v: "Tea_model_validate ?d = Some new" and s': "s' = update_tea s new"
    by (auto simp: route_patch_tea_def Let_def split: if_splits option.splits)
  from v obtain n ty cl temp time where
    f: "patched (Some (tea_name old)) (pta_name data) = Some n"
       "patched (Some (tea_type old)) (pta_type data) = Some ty"
       "patched (Some (tea_caffeine_level old)) (pta_caffeine_level data) = Some cl"
       "patched (Some (tea_steep_temp_celsius old)) (pta_steep_temp_celsius data) = Some temp"
       "patched (Some (tea_steep_time_seconds old)) (pta_steep_time_seconds data) = Some time"
    and new: "new = \<lparr>tea_id = tea_id old, tea_name = n, tea_type = ty,
                tea_origin = patched (tea_origin old) (pta_origin data),
                tea_caffeine_level = cl, tea_steep_temp_celsius = temp,
                tea_steep_time_seconds = time,
                tea_description = patched (tea_description old) (pta_description data),
                tea_created_at = tea_created_at old, tea_updated_at = now\<rparr>"
    by (auto simp: Tea_model_validate_def Let_def split: option.splits if_splits)
  have stored: "get_tea s' (tea_id old) = Some new"
    by (simp add: s' new update_tea_def get_tea_def dict_get_set_same)
  have 1: "(case pta_name data of None \<Rightarrow> tea_name new = tea_name old
                              | Some v \<Rightarrow> v = Some (tea_name new))"
    using f(1) new by (auto simp: patched_def split: option.splits)
  have 2: "(case pta_type data of None \<Rightarrow> tea_type new = tea_type old
                              | Some v \<Rightarrow> v = Some (tea_type new))"
    using f(2) new by (auto simp: patched_def split: option.splits)
  have 3: "(case pta_origin data of None \<Rightarrow> tea_origin new = tea_origin old
                                | Some v \<Rightarrow> tea_origin new = v)"
    using new by (auto simp: patched_def split: option.splits)
  have 4: "(case pta_caffeine_level data of
            None \<Rightarrow> tea_caffeine_level new = tea_caffeine_level old
          | Some v \<Rightarrow> v = Some (tea_caffeine_level new))"
    using f(3) new by (auto simp: patched_def split: option.splits)
  have 5: "(case pta_steep_temp_celsius data of
            None \<Rightarrow> tea_steep_temp_celsius new = tea_steep_temp_celsius old
          | Some v \<Rightarrow> v = Some (tea_steep_temp_celsius new))"
    using f(4) new by (auto simp: patched_def split: option.splits)
  have 6: "(case pta_steep_time_seconds data of
            None \<Rightarrow> tea_steep_time_seconds new = tea_steep_time_seconds old
          | Some v \<Rightarrow> v = Some (tea_steep_time_seconds new))"
    using f(5) new by (auto simp: patched_def split: option.splits)
  have 7: "(case pta_description data of None \<Rightarrow> tea_description new = tea_description old
                                     | Some v \<Rightarrow> tea_description new = v)"
    using new by (auto simp: patched_def split: option.splits)
  have 0: "tea_id new = tea_id old" "tea_created_at new = tea_created_at old"
    "tea_updated_at new = now"
    using new by simp_all
  from 0 1 2 3 4 5 6 7 s' stored show ?thesis by blast
qed

lemma patch_brew_result:
  assumes "get_brew s i = Some old"
    and "route_patch_brew s i data now = (Json new 200, s')"
  shows "brew_id new = brew_id old \<and>
         brew_created_at new = brew_created_at old \<and>
         brew_updated_at new = now \<and>
         brew_teapot_id new = brew_teapot_id old \<and>
         brew_tea_id new = brew_tea_id old \<and>
         brew_water_temp_celsius new = brew_water_temp_celsius old \<and>
         brew_started_at new = brew_started_at old \<and>
         (case pbr_status data of None \<Rightarrow> brew_status new = brew_status old
                                | Some v \<Rightarrow> v = Some (brew_status new)) \<and>
         (case pbr_notes data of None \<Rightarrow> brew_notes new = brew_notes old
                               | Some v \<Rightarrow> brew_notes new = v) \<and>
         (case pbr_completed_at data of None \<Rightarrow> brew_completed_at new = brew_completed_at old
                                      | Some v \<Rightarrow> brew_completed_at new = v) \<and>
         s' = update_brew s new \<and>
         get_brew s' (brew_id old) = Some new"
proof -
  let ?d = "\<lparr>bd_id = brew_id old,
             bd_teapot_id = brew_teapot_id old,
             bd_tea_id = brew_tea_id old,
             bd_status = patched (Some (brew_status old)) (pbr_status data),
             bd_water_temp_celsius = brew_water_temp_celsius old,
             bd_notes = patched (brew_notes old) (pbr_notes data),
             bd_started_at = brew_started_at old,
             bd_completed_at = patched (brew_completed_at old) (pbr_completed_at data),
             bd_created_at = brew_created_at old,
             bd_updated_at = now\<rparr>"
  from assms have v: "Brew_model_validate ?d = Some new" and s': "s' = update_brew s new"
    by (auto simp: route_patch_brew_def Let_def split: if_splits option.splits)
  from v obtain st where
    f: "patched (Some (brew_status old)) (pbr_status data) = Some st"
    and new: "new = \<lparr>brew_id = brew_id old, brew_teapot_id = brew_teapot_id old,
                brew_tea_id = brew_tea_id old, brew_status = st,
                brew_water_temp_celsius = brew_water_temp_celsius old,
                brew_notes = patched (brew_notes old) (pbr_notes data),
                brew_started_at = brew_started_at old,
                brew_completed_at = patched (brew_completed_at old) (pbr_completed_at data),
                brew_created_at = brew_created_at old, brew_updated_at = now\<rparr>"
    by (auto simp: Brew_model_validate_def Let_def split: option.splits if_splits)
  have stored: "get_brew s' (brew_id old) = Some new"
    by (simp add: s' new update_brew_def get_brew_def dict_get_set_same)
  from f new s' stored show ?thesis
    by (auto simp: patched_def split: option.splits)
qed

text \<open>
  Claim C5, as amended. For every PATCH of a stored teapot, tea or brew that answers 200:
  a field that the body omits keeps its stored value, a field that the body supplies has
  the supplied value (an explicit \<^verbatim>\<open>null\<close> included, for the nullable fields), the id and
  \<^verbatim>\<open>created_at\<close> are unchanged, the patched entity is what the store then holds, and its
  \<^verbatim>\<open>updated_at\<close> is the clock reading of the handler. So \<^verbatim>\<open>updated_at\<close> is strictly greater
  than before exactly when that clock reading is later than the stored \<^verbatim>\<open>updated_at\<close>.
\<close>

theorem patch_semantics:
  "(get_teapot s i = Some old_teapot \<and>
    route_patch_teapot s i teapot_patch now = (Json new_teapot 200, s1) \<longrightarrow>
      teapot_id new_teapot = teapot_id old_teapot \<and>
      teapot_created_at new_teapot = teapot_created_at old_teapot \<and>
      teapot_updated_at new_teapot = now \<and>
      (case ptp_name teapot_patch of None \<Rightarrow> teapot_name new_teapot = teapot_name old_teapot
      | Some v \<Rightarrow> v = Some (teapot_name new_teapot)) \<and>
      (case ptp_material teapot_patch of None \<Rightarrow> teapot_material new_teapot = teapot_material old_teapot
      | Some v \<Rightarrow> v = Some (teapot_material new_teapot)) \<and>
      (case ptp_capacity_ml teapot_patch of None \<Rightarrow> teapot_capacity_ml new_teapot = teapot_capacity_ml old_teapot
      | Some v \<Rightarrow> v = Some (teapot_capacity_ml new_teapot)) \<and>
      (case ptp_style teapot_patch of None \<Rightarrow> teapot_style new_teapot = teapot_style old_teapot
      | Some v \<Rightarrow> v = Some (teapot_style new_teapot)) \<and>
      (case ptp_description teapot_patch of None \<Rightarrow> teapot_description new_teapot = teapot_description old_teapot
      | Some v \<Rightarrow> teapot_description new_teapot = v) \<and>
      s1 = update_teapot s new_teapot \<and>
      get_teapot s1 (teapot_id old_teapot) = Some new_teapot \<and>
      (teapot_updated_at old_teapot < teapot_updated_at new_teapot) = (teapot_updated_at old_teapot < now)) \<and>
   (get_tea s j = Some old_tea \<and>
    route_patch_tea s j tea_patch now = (Json new_tea 200, s2) \<longrightarrow>
      tea_id new_tea = tea_id old_tea \<and>
      tea_created_at new_tea = tea_created_at old_tea \<and>
      tea_updated_at new_tea = now \<and>
      (case pta_name tea_patch of None \<Rightarrow> tea_name new_tea = tea_name old_tea
      | Some v \<Rightarrow> v = Some (tea_name new_tea)) \<and>
      (case pta_type tea_patch of None \<Rightarrow> tea_type new_tea = tea_type old_tea
      | Some v \<Rightarrow> v = Some (tea_type new_tea)) \<and>
      (case pta_origin tea_patch of None \<Rightarrow> tea_origin new_tea = tea_origin old_tea
      | Some v \<Rightarrow> tea_origin new_tea = v) \<and>
      (case pta_caffeine_level tea_patch of
      None \<Rightarrow> tea_caffeine_level new_tea = tea_caffeine_level old_tea
      | Some v \<Rightarrow> v = Some (tea_caffeine_level new_tea)) \<and>
      (case pta_steep_temp_celsius tea_patch of
      None \<Rightarrow> tea_steep_temp_celsius new_tea = tea_steep_temp_celsius old_tea
      | Some v \<Rightarrow> v = Some (tea_steep_temp_celsius new_tea)) \<and>
      (case pta_steep_time_seconds tea_patch of
      None \<Rightarrow> tea_steep_time_seconds new_tea = tea_steep_time_seconds old_tea
      | Some v \<Rightarrow> v = Some (tea_steep_time_seconds new_tea)) \<and>
      (case pta_description tea_patch of None \<Rightarrow> tea_description new_tea = tea_description old_tea
      | Some v \<Rightarrow> tea_description new_tea = v) \<and>
      s2 = update_tea s new_tea \<and>
      get_tea s2 (tea_id old_tea) = Some new_tea \<and>
      (tea_updated_at old_tea < tea_updated_at new_tea) = (tea_updated_at old_tea < now)) \<and>
   (get_brew s k = Some old_brew \<and>
    route_patch_brew s k brew_patch now = (Json new_brew 200, s3) \<longrightarrow>
      brew_id new_brew = brew_id old_brew \<and>
      brew_created_at new_brew = brew_created_at old_brew \<and>
      brew_updated_at new_brew = now \<and>
      brew_teapot_id new_brew = brew_teapot_id old_brew \<and>
      brew_tea_id new_brew = brew_tea_id old_brew \<and>
      brew_water_temp_celsius new_brew = brew_water_temp_celsius old_brew \<and>
      brew_started_at new_brew = brew_started_at old_brew \<and>
      (case pbr_status brew_patch of None \<Rightarrow> brew_status new_brew = brew_status old_brew
      | Some v \<Rightarrow> v = Some (brew_status new_brew)) \<and>
      (case pbr_notes brew_patch of None \<Rightarrow> brew_notes new_brew = brew_notes old_brew
      | Some v \<Rightarrow> brew_notes new_brew = v) \<and>
      (case pbr_completed_at brew_patch of None \<Rightarrow> brew_completed_at new_brew = brew_completed_at old_brew
      | Some v \<Rightarrow> brew_completed_at new_brew = v) \<and>
      s3 = update_brew s new_brew \<and>
      get_brew s3 (brew_id old_brew) = Some new_brew \<and>
      (brew_updated_at old_brew < brew_updated_at new_brew) = (brew_updated_at old_brew < now))"
proof -
  have teapot_part: "get_teapot s i = Some old_teapot \<and>
    route_patch_teapot s i teapot_patch now = (Json new_teapot 200, s1) \<longrightarrow>
      teapot_id new_teapot = teapot_id old_teapot \<and>
      teapot_created_at new_teapot = teapot_created_at old_teapot \<and>
      teapot_updated_at new_teapot = now \<and>
      (case ptp_name teapot_patch of None \<Rightarrow> teapot_name new_teapot = teapot_name old_teapot
      | Some v \<Rightarrow> v = Some (teapot_name new_teapot)) \<and>
      (case ptp_material teapot_patch of None \<Rightarrow> teapot_material new_teapot = teapot_material old_teapot
      | Some v \<Rightarrow> v = Some (teapot_material new_teapot)) \<and>
      (case ptp_capacity_ml teapot_patch of None \<Rightarrow> teapot_capacity_ml new_teapot = teapot_capacity_ml old_teapot
      | Some v \<Rightarrow> v = Some (teapot_capacity_ml new_teapot)) \<and>
      (case ptp_style teapot_patch of None \<Rightarrow> teapot_style new_teapot = teapot_style old_teapot
      | Some v \<Rightarrow> v = Some (teapot_style new_teapot)) \<and>
      (case ptp_description teapot_patch of None \<Rightarrow> teapot_description new_teapot = teapot_description old_teapot
      | Some v \<Rightarrow> teapot_description new_teapot = v) \<and>
      s1 = update_teapot s new_teapot \<and>
      get_teapot s1 (teapot_id old_teapot) = Some new_teapot \<and>
      (teapot_updated_at old_teapot < teapot_updated_at new_teapot) = (teapot_updated_at old_teapot < now)"
  proof (rule impI)
    assume "get_teapot s i = Some old_teapot \<and>
      route_patch_teapot s i teapot_patch now = (Json new_teapot 200, s1)"
    then have "get_teapot s i = Some old_teapot"
      and "route_patch_teapot s i teapot_patch now = (Json new_teapot 200, s1)"
      by simp_all
    from patch_teapot_result [OF this]
    show "teapot_id new_teapot = teapot_id old_teapot \<and>
        teapot_created_at new_teapot = teapot_created_at old_teapot \<and>
        teapot_updated_at new_teapot = now \<and>
        (case ptp_name teapot_patch of None \<Rightarrow> teapot_name new_teapot = teapot_name old_teapot
        | Some v \<Rightarrow> v = Some (teapot_name new_teapot)) \<and>
        (case ptp_material teapot_patch of None \<Rightarrow> teapot_material new_teapot = teapot_material old_teapot
        | Some v \<Rightarrow> v = Some (teapot_material new_teapot)) \<and>
        (case ptp_capacity_ml teapot_patch of None \<Rightarrow> teapot_capacity_ml new_teapot = teapot_capacity_ml old_teapot
        | Some v \<Rightarrow> v = Some (teapot_capacity_ml new_teapot)) \<and>
        (case ptp_style teapot_patch of None \<Rightarrow> teapot_style new_teapot = teapot_style old_teapot
        | Some v \<Rightarrow> v = Some (teapot_style new_teapot)) \<and>
        (case ptp_description teapot_patch of None \<Rightarrow> teapot_description new_teapot = teapot_description old_teapot
        | Some v \<Rightarrow> teapot_description new_teapot = v) \<and>
        s1 = update_teapot s new_teapot \<and>
        get_teapot s1 (teapot_id old_teapot) = Some new_teapot \<and>
        (teapot_updated_at old_teapot < teapot_updated_at new_teapot) = (teapot_updated_at old_teapot < now)"
      by auto
  qed
  have tea_part: "get_tea s j = Some old_tea \<and>
    route_patch_tea s j tea_patch now = (Json new_tea 200, s2) \<longrightarrow>
      tea_id new_tea = tea_id old_tea \<and>
      tea_created_at new_tea = tea_created_at old_tea \<and>
      tea_updated_at new_tea = now \<and>
      (case pta_name tea_patch of None \<Rightarrow> tea_name new_tea = tea_name old_tea
      | Some v \<Rightarrow> v = Some (tea_name new_tea)) \<and>
      (case pta_type tea_patch of None \<Rightarrow> tea_type new_tea = tea_type old_tea
      | Some v \<Rightarrow> v = Some (tea_type new_tea)) \<and>
      (case pta_origin tea_patch of None \<Rightarrow> tea_origin new_tea = tea_origin old_tea
      | Some v \<Rightarrow> tea_origin new_tea = v) \<and>
      (case pta_caffeine_level tea_patch of
      None \<Rightarrow> tea_caffeine_level new_tea = tea_caffeine_level old_tea
      | Some v \<Rightarrow> v = Some (tea_caffeine_level new_tea)) \<and>
      (case pta_steep_temp_celsius tea_patch of
      None \<Rightarrow> tea_steep_temp_celsius new_tea = tea_steep_temp_celsius old_tea
      | Some v \<Rightarrow> v = Some (tea_steep_temp_celsius new_tea)) \<and>
      (case pta_steep_time_seconds tea_patch of
      None \<Rightarrow> tea_steep_time_seconds new_tea = tea_steep_time_seconds old_tea
      | Some v \<Rightarrow> v = Some (tea_steep_time_seconds new_tea)) \<and>
      (case pta_description tea_patch of None \<Rightarrow> tea_description new_tea = tea_description old_tea
      | Some v \<Rightarrow> tea_description new_tea = v) \<and>
      s2 = update_tea s new_tea \<and>
      get_tea s2 (tea_id old_tea) = Some new_tea \<and>
      (tea_updated_at old_tea < tea_updated_at new_tea) = (tea_updated_at old_tea < now)"
  proof (rule impI)
    assume "get_tea s j = Some old_tea \<and>
      route_patch_tea s j tea_patch now = (Json new_tea 200, s2)"
    then have "get_tea s j = Some old_tea"
      and "route_patch_tea s j tea_patch now = (Json new_tea 200, s2)"
      by simp_all
    from patch_tea_result [OF this]
    show "tea_id new_tea = tea_id old_tea \<and>
        tea_created_at new_tea = tea_created_at old_tea \<and>
        tea_updated_at new_tea = now \<and>
        (case pta_name tea_patch of None \<Rightarrow> tea_name new_tea = tea_name old_tea
        | Some v \<Rightarrow> v = Some (tea_name new_tea)) \<and>
        (case pta_type tea_patch of None \<Rightarrow> tea_type new_tea = tea_type old_tea
        | Some v \<Rightarrow> v = Some (tea_type new_tea)) \<and>
        (case pta_origin tea_patch of None \<Rightarrow> tea_origin new_tea = tea_origin old_tea
        | Some v \<Rightarrow> tea_origin new_tea = v) \<and>
        (case pta_caffeine_level tea_patch of
        None \<Rightarrow> tea_caffeine_level new_tea = tea_caffeine_level old_tea
        | Some v \<Rightarrow> v = Some (tea_caffeine_level new_tea)) \<and>
        (case pta_steep_temp_celsius tea_patch of
        None \<Rightarrow> tea_steep_temp_celsius new_tea = tea_steep_temp_celsius old_tea
        | Some v \<Rightarrow> v = Some (tea_steep_temp_celsius new_tea)) \<and>
        (case pta_steep_time_seconds tea_patch of
        None \<Rightarrow> tea_steep_time_seconds new_tea = tea_steep_time_seconds old_tea
        | Some v \<Rightarrow> v = Some (tea_steep_time_seconds new_tea)) \<and>
        (case pta_description tea_patch of None \<Rightarrow> tea_description new_tea = tea_description old_tea
        | Some v \<Rightarrow> tea_description new_tea = v) \<and>
        s2 = update_tea s new_tea \<and>
        get_tea s2 (tea_id old_tea) = Some new_tea \<and>
        (tea_updated_at old_tea < tea_updated_at new_tea) = (tea_updated_at old_tea < now)"
      by auto
  qed
  have brew_part: "get_brew s k = Some old_brew \<and>
    route_patch_brew s k brew_patch now = (Json new_brew 200, s3) \<longrightarrow>
      brew_id new_brew = brew_id old_brew \<and>
      brew_created_at new_brew = brew_created_at old_brew \<and>
      brew_updated_at new_brew = now \<and>
      brew_teapot_id new_brew = brew_teapot_id old_brew \<and>
      brew_tea_id new_brew = brew_tea_id old_brew \<and>
      brew_water_temp_celsius new_brew = brew_water_temp_celsius old_brew \<and>
      brew_started_at new_brew = brew_started_at old_brew \<and>
      (case pbr_status brew_patch of None \<Rightarrow> brew_status new_brew = brew_status old_brew
      | Some v \<Rightarrow> v = Some (brew_status new_brew)) \<and>
      (case pbr_notes brew_patch of None \<Rightarrow> brew_notes new_brew = brew_notes old_brew
      | Some v \<Rightarrow> brew_notes new_brew = v) \<and>
      (case pbr_completed_at brew_patch of None \<Rightarrow> brew_completed_at new_brew = brew_completed_at old_brew
      | Some v \<Rightarrow> brew_completed_at new_brew = v) \<and>
      s3 = update_brew s new_brew \<and>
      get_brew s3 (brew_id old_brew) = Some new_brew \<and>
      (brew_updated_at old_brew < brew_updated_at new_brew) = (brew_updated_at old_brew < now)"
  proof (rule impI)
    assume "get_brew s k = Some old_brew \<and>
      route_patch_brew s k brew_patch now = (Json new_brew 200, s3)"
    then have "get_brew s k = Some old_brew"
      and "route_patch_brew s k brew_patch now = (Json new_brew 200, s3)"
      by simp_all
    from patch_brew_result [OF this]
    show "brew_id new_brew = brew_id old_brew \<and>
        brew_created_at new_brew = brew_created_at old_brew \<and>
        brew_updated_at new_brew = now \<and>
        brew_teapot_id new_brew = brew_teapot_id old_brew \<and>
        brew_tea_id new_brew = brew_tea_id old_brew \<and>
        brew_water_temp_celsius new_brew = brew_water_temp_celsius old_brew \<and>
        brew_started_at new_brew = brew_started_at old_brew \<and>
        (case pbr_status brew_patch of None \<Rightarrow> brew_status new_brew = brew_status old_brew
        | Some v \<Rightarrow> v = Some (brew_status new_brew)) \<and>
        (case pbr_notes brew_patch of None \<Rightarrow> brew_notes new_brew = brew_notes old_brew
        | Some v \<Rightarrow> brew_notes new_brew = v) \<and>
        (case pbr_completed_at brew_patch of None \<Rightarrow> brew_completed_at new_brew = brew_completed_at old_brew
        | Some v \<Rightarrow> brew_completed_at new_brew = v) \<and>
        s3 = update_brew s new_brew \<and>
        get_brew s3 (brew_id old_brew) = Some new_brew \<and>
        (brew_updated_at old_brew < brew_updated_at new_brew) = (brew_updated_at old_brew < now)"
      by auto
  qed
  show ?thesis
    by (rule conjI [OF teapot_part conjI [OF tea_part brew_part]])
qed

text \<open>
  Three successful patches of \<open>store_1\<close> at clock reading 9: a teapot renamed with its
  description set to \<^verbatim>\<open>null\<close>, a tea given an origin and a temperature, and a brew
  marked ready with its notes set to \<^verbatim>\<open>null\<close>.
\<close>

theorem patch_semantics_witness:
  "get_teapot store_1 ''pot-1'' = Some teapot_1 \<and>
   route_patch_teapot store_1 ''pot-1'' teapot_patch_1 9
     = (Json (teapot_1\<lparr>teapot_name := ''Pot'', teapot_description := None,
                        teapot_updated_at := 9\<rparr>) 200,
        update_teapot store_1
          (teapot_1\<lparr>teapot_name := ''Pot'', teapot_description := None,
                    teapot_updated_at := 9\<rparr>)) \<and>
   get_teapot (update_teapot store_1
       (teapot_1\<lparr>teapot_name := ''Pot'', teapot_description := None, teapot_updated_at := 9\<rparr>))
     (teapot_id teapot_1)
     = Some (teapot_1\<lparr>teapot_name := ''Pot'', teapot_description := None,
                      teapot_updated_at := 9\<rparr>) \<and>
   get_tea store_1 ''tea-1'' = Some tea_1 \<and>
   route_patch_tea store_1 ''tea-1'' tea_patch_1 9
     = (Json (tea_1\<lparr>tea_origin := Some ''Uji'', tea_steep_temp_celsius := 75,
                     tea_updated_at := 9\<rparr>) 200,
        update_tea store_1
          (tea_1\<lparr>tea_origin := Some ''Uji'', tea_steep_temp_celsius := 75,
                 tea_updated_at := 9\<rparr>)) \<and>
   get_tea (update_tea store_1
       (tea_1\<lparr>tea_origin := Some ''Uji'', tea_steep_temp_celsius := 75, tea_updated_at := 9\<rparr>))
     (tea_id tea_1)
     = Some (tea_1\<lparr>tea_origin := Some ''Uji'', tea_steep_temp_celsius := 75,
                   tea_updated_at := 9\<rparr>) \<and>
   get_brew store_1 ''brew-b'' = Some brew_b \<and>
   route_patch_brew store_1 ''brew-b'' brew_patch_1 9
     = (Json (brew_b\<lparr>brew_status := READY, brew_notes := None, brew_updated_at := 9\<rparr>) 200,
        update_brew store_1
          (brew_b\<lparr>brew_status := READY, brew_notes := None, brew_updated_at := 9\<rparr>)) \<and>
   get_brew (update_brew store_1
       (brew_b\<lparr>brew_status := READY, brew_notes := None, brew_updated_at := 9\<rparr>))
     (brew_id brew_b)
     = Some (brew_b\<lparr>brew_status := READY, brew_notes := None, brew_updated_at := 9\<rparr>)"
proof -
  let ?t = "teapot_1\<lparr>teapot_name := ''Pot'', teapot_description := None,
              teapot_updated_at := 9\<rparr>"
  let ?e = "tea_1\<lparr>tea_origin := Some ''Uji'', tea_steep_temp_celsius := 75,
              tea_updated_at := 9\<rparr>"
  let ?b = "brew_b\<lparr>brew_status := READY, brew_notes := None, brew_updated_at := 9\<rparr>"
  have gt: "get_teapot store_1 ''pot-1'' = Some teapot_1"
    by (simp add: get_teapot_def store_1_def)
  have ge: "get_tea store_1 ''tea-1'' = Some tea_1"
    by (simp add: get_tea_def store_1_def)
  have gb: "get_brew store_1 ''brew-b'' = Some brew_b"
    by (simp add: get_brew_def store_1_def)
  have rt: "route_patch_teapot store_1 ''pot-1'' teapot_patch_1 9
      = (Json ?t 200, update_teapot store_1 ?t)"
    by (simp add: route_patch_teapot_def gt PatchTeapotRequest_valid_def teapot_patch_1_def
          opt2_all_def opt_all_def patched_def Teapot_model_validate_def Teapot_valid_def
          teapot_1_def)
  have re: "route_patch_tea store_1 ''tea-1'' tea_patch_1 9
      = (Json ?e 200, update_tea store_1 ?e)"
    by (simp add: route_patch_tea_def ge PatchTeaRequest_valid_def tea_patch_1_def
          opt2_all_def opt_all_def patched_def Tea_model_validate_def Tea_valid_def
          tea_1_def)
  have rb: "route_patch_brew store_1 ''brew-b'' brew_patch_1 9
      = (Json ?b 200, update_brew store_1 ?b)"
    by (simp add: route_patch_brew_def gb PatchBrewRequest_valid_def brew_patch_1_def
          opt2_all_def opt_all_def patched_def Brew_model_validate_def Brew_valid_def
          brew_b_def)
  note w = patch_semantics [of store_1 "''pot-1''" teapot_1 teapot_patch_1 9 ?t
      "update_teapot store_1 ?t" "''tea-1''" tea_1 tea_patch_1 ?e "update_tea store_1 ?e"
      "''brew-b''" brew_b brew_patch_1 ?b "update_brew store_1 ?b"]
  from w gt rt
  have st: "get_teapot (update_teapot store_1 ?t) (teapot_id teapot_1) = Some ?t"
    by blast
  from w ge re
  have se: "get_tea (update_tea store_1 ?e) (tea_id tea_1) = Some ?e"
    by blast
  from w gb rb
  have sb: "get_brew (update_brew store_1 ?b) (brew_id brew_b) = Some ?b"
    by blast
  from gt rt st ge re se gb rb sb show ?thesis by blast
qed

text \<open>
  The claim as stated fails when the clock has not advanced: \<open>teapot_1\<close> was last updated
  at 5, and a patch handled at clock reading 5 succeeds and leaves \<^verbatim>\<open>updated_at\<close> at 5.
\<close>

theorem patch_updated_at_counterexample:
  "get_teapot store_1 ''pot-1'' = Some teapot_1 \<and>
   route_patch_teapot store_1 ''pot-1'' teapot_patch_1 5
     = (Json (teapot_1\<lparr>teapot_name := ''Pot'', teapot_description := None,
       teapot_updated_at := 5\<rparr>) 200,
        update_teapot store_1 (teapot_1\<lparr>teapot_name := ''Pot'', teapot_description := None,
       teapot_updated_at := 5\<rparr>)) \<and>
   \<not> teapot_updated_at teapot_1
       < teapot_updated_at (teapot_1\<lparr>teapot_name := ''Pot'', teapot_description := None,
       teapot_updated_at := 5\<rparr>)"
  by (simp add: route_patch_teapot_def get_teapot_def store_1_def PatchTeapotRequest_valid_def
        teapot_patch_1_def opt2_all_def opt_all_def patched_def Teapot_model_validate_def
        Teapot_valid_def teapot_1_def)


section \<open>Concurrent steep creation\<close>

text \<open>
  The three steps of a handler, run without interruption, are the handler.
\<close>

lemma route_create_steep_steps:
  "(let (h1, s1) = steep_handler_step c AtGetBrew s;
        (h2, s2) = steep_handler_step c h1 s1;
        (h3, s3) = steep_handler_step c h2 s2
    in (h3, s3))
   = (Returned (fst (route_create_steep s (call_brew_id c) (call_data c) (call_uuid c)
                      (call_now c))),
      snd (route_create_steep s (call_brew_id c) (call_data c) (call_uuid c) (call_now c)))"
  by (simp add: route_create_steep_def Let_def split: option.splits prod.splits)

lemma get_next_steep_number_Max:
  "fst (get_next_steep_number s b) =
     (if filter (\<lambda>st. steep_brew_id st = b) (dict_values (steeps s)) = [] then 1
      else Max (steep_number ` set (filter (\<lambda>st. steep_brew_id st = b) (dict_values (steeps s))))
             + 1)"
proof (cases "filter (\<lambda>st. steep_brew_id st = b) (dict_values (steeps s))")
  case Nil
  then show ?thesis by (simp add: get_next_steep_number_def)
next
  case (Cons x xs)
  have "fst (get_next_steep_number s b) = fold max (map steep_number xs) (steep_number x) + 1"
    by (simp add: get_next_steep_number_def Cons)
  also have "\<dots> = Max (set (steep_number x # map steep_number xs)) + 1"
    by (simp only: fold_max_Max)
  also have "set (steep_number x # map steep_number xs) = steep_number ` set (x # xs)"
    by simp
  finally show ?thesis
    unfolding Cons by simp
qed

lemma get_next_steep_number_store: "snd (get_next_steep_number s b) = s"
  by (simp add: get_next_steep_number_def split: list.splits)

lemma Max_insert_next:
  fixes A :: "int set"
  assumes "finite A" and "A \<noteq> {}"
  shows "Max (insert (Max A + 1) A) = Max A + 1"
  using assms by (simp add: max_def)

text \<open>
  Run one after the other, with fresh ids, two creations for a brew get consecutive
  numbers: the number after a successful creation is one more than the number it used.
\<close>

lemma route_create_steep_sequential:
  assumes "route_create_steep s b data uuid now = (Json st 201, s')"
    and "get_steep s uuid = None"
  shows "steep_number st = fst (get_next_steep_number s b) \<and>
         fst (get_next_steep_number s' b) = steep_number st + 1"
proof -
  let ?own = "filter (\<lambda>st. steep_brew_id st = b) (dict_values (steeps s))"
  obtain n where g: "get_next_steep_number s b = (n, s)"
    by (metis prod.collapse get_next_steep_number_store)
  then have n: "fst (get_next_steep_number s b) = n"
    by simp
  from assms(1) have st: "st = build_steep b data uuid now n"
    and s': "s' = create_steep s st"
    by (auto simp: route_create_steep_def g Let_def split: option.splits if_splits)
  have num: "steep_number st = n" and brew: "steep_brew_id st = b" and sid: "steep_id st = uuid"
    by (simp_all add: st build_steep_def)
  from assms(2) have vals: "dict_values (steeps s') = dict_values (steeps s) @ [st]"
    by (simp add: s' create_steep_def get_steep_def sid dict_values_set_absent)
  have own': "filter (\<lambda>st. steep_brew_id st = b) (dict_values (steeps s')) = ?own @ [st]"
    by (simp add: vals brew)
  have "Max (steep_number ` set (?own @ [st])) = steep_number st"
  proof (cases "?own = []")
    case True
    then show ?thesis by simp
  next
    case False
    with n have "n = Max (steep_number ` set ?own) + 1"
      by (simp add: get_next_steep_number_Max)
    moreover from False have "steep_number ` set ?own \<noteq> {}"
      by (simp only: image_is_empty set_empty not_False_eq_True)
    then have "Max (insert (Max (steep_number ` set ?own) + 1) (steep_number ` set ?own))
        = Max (steep_number ` set ?own) + 1"
      by (intro Max_insert_next) simp_all
    ultimately show ?thesis
      using num by (simp del: set_filter)
  qed
  then have "fst (get_next_steep_number s' b) = steep_number st + 1"
    by (simp add: get_next_steep_number_Max own')
  with num n show ?thesis by simp
qed

text \<open>
  Claim C1. The claim requires that the read of the current maximum and the insertion of
  the new steep happen in one exclusive scope, so that two concurrent creations for a brew
  never get the same number. In the code they are two calls, \<^verbatim>\<open>get_next_steep_number\<close> and
  \<^verbatim>\<open>create_steep\<close>, each with its own \<^verbatim>\<open>with self._lock\<close>. Two requests for \<open>brew-a\<close>,
  which has the steeps 1 and 2, whose handlers alternate at the calls to the store, both
  read 3 and both answer 201 with steep number 3, and the store then holds two steeps of
  \<open>brew-a\<close> with number 3. The same two requests handled one after the other get 3 and 4.
\<close>

theorem create_steep_race_duplicate_number:
  "get_steep store_1 ''s4'' = None \<and> get_steep store_1 ''s5'' = None \<and>
   run_schedule steep_call_1 steep_call_2 [First, Second, First, Second, First, Second]
     (AtGetBrew, AtGetBrew, store_1)
   = (Returned (Json (build_steep ''brew-a'' steep_request_1 ''s4'' 20 3) 201),
      Returned (Json (build_steep ''brew-a'' steep_request_1 ''s5'' 21 3) 201),
      store_1\<lparr>steeps := steeps store_1 @
        [(''s4'', build_steep ''brew-a'' steep_request_1 ''s4'' 20 3),
         (''s5'', build_steep ''brew-a'' steep_request_1 ''s5'' 21 3)]\<rparr>) \<and>
   run_schedule steep_call_1 steep_call_2 [First, First, First, Second, Second, Second]
     (AtGetBrew, AtGetBrew, store_1)
   = (Returned (Json (build_steep ''brew-a'' steep_request_1 ''s4'' 20 3) 201),
      Returned (Json (build_steep ''brew-a'' steep_request_1 ''s5'' 21 4) 201),
      store_1\<lparr>steeps := steeps store_1 @
        [(''s4'', build_steep ''brew-a'' steep_request_1 ''s4'' 20 3),
         (''s5'', build_steep ''brew-a'' steep_request_1 ''s5'' 21 4)]\<rparr>)"
  by (simp add: steep_call_1_def steep_call_2_def steep_request_1_def store_1_def
        get_steep_def get_brew_def get_next_steep_number_def create_steep_def
        CreateSteepRequest_valid_def Steep_valid_def build_steep_def opt_all_def
        dict_values_def steep_a1_def steep_a2_def steep_b1_def)

end
